theory Spec2Isabelle
  imports Complex_Main "HOL-Library.FSet" "HOL-Library.Char_ord" "HOL-Library.List_Lexorder"
    "HOL-Library.Log_Nat" "HOL-Library.Monad_Syntax" "HOL-Library.Multiset"
begin

section \<open>Errors\<close>

text \<open>
  The exceptions the engine can raise: the three \<^verbatim>\<open>ValueError\<close>s of the registration
  operations, the \<^verbatim>\<open>ValueError\<close> of \<^verbatim>\<open>date.replace\<close> and the
  \<^verbatim>\<open>OverflowError\<close> of the arithmetic of the standard library (a date beyond year
  9999, an integer too large for a float).
\<close>

datatype error =
    ValueError_familia_ya_existe
  | ValueError_familia_no_existe
  | ValueError_cedula_ya_existe
  | ValueError_fecha
  | OverflowError

section \<open>Dates\<close>

text \<open>
  A calendar date as the source's \<^verbatim>\<open>datetime.date\<close>: year, month, day.  Dates are
  compared as the triples they are; the source compares \<^verbatim>\<open>(month, day)\<close> pairs in
  \<^verbatim>\<open>anios_entre\<close> and whole dates in \<^verbatim>\<open>nacidos_ultimos_10_anios\<close>.
\<close>

record fecha =
  anio :: int
  mes :: int
  dia :: int

definition md_menor :: "fecha \<Rightarrow> fecha \<Rightarrow> bool" where
  "md_menor r f = (mes r < mes f \<or> (mes r = mes f \<and> dia r < dia f))"

definition fecha_le :: "fecha \<Rightarrow> fecha \<Rightarrow> bool" where
  "fecha_le a b =
     (anio a < anio b \<or> (anio a = anio b \<and> (mes a < mes b \<or> (mes a = mes b \<and> dia a \<le> dia b))))"

text \<open>
  \<^verbatim>\<open>anios_entre(fecha, ref=None)\<close>: 0 when \<^verbatim>\<open>fecha\<close> is \<^verbatim>\<open>None\<close>; the reference
  defaults to \<^verbatim>\<open>hoy()\<close>, the real-world date, which the model takes as the
  parameter \<open>hoy\<close>.
\<close>

definition anios_entre :: "fecha \<Rightarrow> fecha option \<Rightarrow> fecha option \<Rightarrow> int" where
  "anios_entre hoy f ref =
     (case f of
        None \<Rightarrow> 0
      | Some fe \<Rightarrow>
          (let r = (case ref of None \<Rightarrow> hoy | Some r' \<Rightarrow> r');
               y = anio r - anio fe;
               y' = (if md_menor r fe then y - 1 else y)
           in max 0 y'))"

text \<open>
  The calendar of the standard library, for the two operations on dates the engine
  uses: \<^verbatim>\<open>d.replace(year=y)\<close>, which builds the date anew and raises
  \<^verbatim>\<open>ValueError\<close> when the triple is no date (years run from 1 to 9999), and
  \<^verbatim>\<open>d + timedelta(days=n)\<close>, which goes through the proleptic Gregorian ordinal
  and raises \<^verbatim>\<open>OverflowError\<close> outside \<open>1..3652059\<close>.
\<close>

definition es_bisiesto :: "int \<Rightarrow> bool" where
  "es_bisiesto y = (y mod 4 = 0 \<and> (y mod 100 \<noteq> 0 \<or> y mod 400 = 0))"

definition dias_del_mes :: "int \<Rightarrow> int \<Rightarrow> int" where
  "dias_del_mes y m =
     (if m = 2 then (if es_bisiesto y then 29 else 28)
      else if m = 4 \<or> m = 6 \<or> m = 9 \<or> m = 11 then 30 else 31)"

definition fecha_valida :: "fecha \<Rightarrow> bool" where
  "fecha_valida d =
     (1 \<le> anio d \<and> anio d \<le> 9999 \<and> 1 \<le> mes d \<and> mes d \<le> 12
      \<and> 1 \<le> dia d \<and> dia d \<le> dias_del_mes (anio d) (mes d))"

definition reemplazar_anio :: "fecha \<Rightarrow> int \<Rightarrow> error + fecha" where
  "reemplazar_anio d y =
     (let d' = d\<lparr>anio := y\<rparr> in if fecha_valida d' then Inr d' else Inl ValueError_fecha)"







section \<open>Floating point\<close>

text \<open>
  The compatibility index and the death probability are computed in Python floats:
  IEEE 754 binary64 with round-to-nearest, ties-to-even.  A finite float is a pair
  \<open>(m, e)\<close> standing for \<open>m * 2 ^ e\<close>.  \<open>redondear p q\<close> is the float nearest to the
  fraction \<open>p / q\<close> (\<open>0 < q\<close>): 53 bits of mantissa, exponents from \<open>-1074\<close>
  (subnormal numbers keep that exponent), and \<open>None\<close> when the rounded value leaves
  the finite range.  Every operation of the source is correctly rounded, so each one is
  the exact result passed through \<open>redondear\<close>: a decimal literal, the conversion of an
  integer, the true division of two integers, and the product, sum and quotient of two
  floats.  No infinity arises in the engine's formulas except from an integer too large
  to convert, which raises \<^verbatim>\<open>OverflowError\<close>; \<open>None\<close> stands for that.
\<close>

type_synonym flotante = "int \<times> int"

definition escalar :: "int \<Rightarrow> int \<Rightarrow> int \<Rightarrow> int \<times> int" where
  "escalar a q e = (if 0 \<le> e then (a, q * 2 ^ nat e) else (a * 2 ^ nat (- e), q))"

definition redondear :: "int \<Rightarrow> int \<Rightarrow> flotante option" where
  "redondear p q =
     (if p = 0 then Some (0, 0)
      else
        let a = \<bar>p\<bar>;
            e0 = bitlen a - bitlen q - 53;
            e1 = (case escalar a q e0 of (P, Q) \<Rightarrow> if 2 ^ 53 * Q \<le> P then e0 + 1 else e0);
            e = max e1 (- 1074)
        in case escalar a q e of (P, Q) \<Rightarrow>
             let m = P div Q;
                 r = P mod Q;
                 m' = (if 2 * r < Q then m
                       else if Q < 2 * r then m + 1
                       else if even m then m else m + 1)
             in if 971 < e \<or> (e = 971 \<and> 2 ^ 53 \<le> m') then None
                else Some (sgn p * m', e))"

definition fl_de_int :: "int \<Rightarrow> flotante option" where
  "fl_de_int n = redondear n 1"

definition fl_mul :: "flotante \<Rightarrow> flotante \<Rightarrow> flotante option" where
  "fl_mul x y = (case x of (m1, e1) \<Rightarrow> case y of (m2, e2) \<Rightarrow>
     (case escalar (m1 * m2) 1 (- (e1 + e2)) of (P, Q) \<Rightarrow> redondear P Q))"

definition fl_add :: "flotante \<Rightarrow> flotante \<Rightarrow> flotante option" where
  "fl_add x y = (case x of (m1, e1) \<Rightarrow> case y of (m2, e2) \<Rightarrow>
     (let e = min e1 e2
      in case escalar (m1 * 2 ^ nat (e1 - e) + m2 * 2 ^ nat (e2 - e)) 1 (- e) of
           (P, Q) \<Rightarrow> redondear P Q))"


definition fl_trunc :: "flotante \<Rightarrow> int" where
  "fl_trunc x = (case x of (m, e) \<Rightarrow>
     if 0 \<le> e then m * 2 ^ nat e else sgn m * (\<bar>m\<bar> div 2 ^ nat (- e)))"



section \<open>Persons\<close>

record persona =
  cedula :: string
  nombre :: string
  fecha_nacimiento :: fecha
  genero :: string
  provincia :: string
  estado_civil :: string
  fecha_fallecimiento :: "fecha option"
  padres :: "string fset"
  hijos :: "string fset"
  parejas :: "string fset"
  afinidades :: "string fset"
  historial :: "(int \<times> string) list"
  salud_emocional :: int

definition edad :: "fecha \<Rightarrow> persona \<Rightarrow> fecha option \<Rightarrow> int" where
  "edad hoy p ref =
     (case fecha_fallecimiento p of
        Some d \<Rightarrow> anios_entre hoy (Some (fecha_nacimiento p)) (Some d)
      | None \<Rightarrow> anios_entre hoy (Some (fecha_nacimiento p)) ref)"

definition vivo :: "persona \<Rightarrow> bool" where
  "vivo p = (fecha_fallecimiento p = None)"

text \<open>
  Python strings are modelled by their UTF-8 bytes, which keeps equality and the order
  of \<^verbatim>\<open>str\<close> (code point order); the accented letters of the source's literals are
  written as their two bytes.
\<close>

definition Soltero :: string where "Soltero = ''Soltero(a)''"
definition Casado :: string where "Casado = ''Casado(a)''"
definition Union_libre :: string where
  "Union_libre = ''Uni'' @ [CHR 0xC3, CHR 0xB3] @ ''n libre''"

definition AFINIDADES :: "string list" where
  "AFINIDADES =
     [''Deporte'', ''Arte'', ''Ciencia'', ''M'' @ [CHR 0xC3, CHR 0xBA] @ ''sica'', ''Lectura'',
      ''Viajes'', ''Gastronom'' @ [CHR 0xC3, CHR 0xAD] @ ''a'', ''Videojuegos'']"

definition registrar_evento :: "fecha \<Rightarrow> string \<Rightarrow> fecha option \<Rightarrow> persona \<Rightarrow> persona" where
  "registrar_evento hoy descripcion fecha_ref p =
     (let f = (case fecha_ref of None \<Rightarrow> hoy | Some r \<Rightarrow> r)
      in p\<lparr>historial := historial p @ [(anio f, descripcion)]\<rparr>)"


text \<open>
  The two scores of \<^verbatim>\<open>es_compatible_para_union\<close> that go through floats:
  \<^verbatim>\<open>int(100 * (afin_comun / afin_total))\<close> and
  \<^verbatim>\<open>int(0.6 * score_afinidad + 0.2 * score_emocional + 0.2 * comp_genetica)\<close>.
\<close>

definition score_afinidad :: "int \<Rightarrow> int \<Rightarrow> int option" where
  "score_afinidad afin_comun afin_total =
     do { c \<leftarrow> redondear afin_comun afin_total;
          k \<leftarrow> fl_de_int 100;
          x \<leftarrow> fl_mul k c;
          Some (fl_trunc x) }"

definition indice :: "int \<Rightarrow> int \<Rightarrow> int \<Rightarrow> int option" where
  "indice sa se cg =
     do { k06 \<leftarrow> redondear 6 10;
          fa \<leftarrow> fl_de_int sa;
          t1 \<leftarrow> fl_mul k06 fa;
          k02 \<leftarrow> redondear 2 10;
          fe \<leftarrow> fl_de_int se;
          t2 \<leftarrow> fl_mul k02 fe;
          s1 \<leftarrow> fl_add t1 t2;
          fg \<leftarrow> fl_de_int cg;
          t3 \<leftarrow> fl_mul k02 fg;
          s2 \<leftarrow> fl_add s1 t3;
          Some (fl_trunc s2) }"

definition es_compatible_para_union :: "fecha \<Rightarrow> persona \<Rightarrow> persona \<Rightarrow> error + bool" where
  "es_compatible_para_union hoy self otra =
     (if \<not> vivo self \<or> \<not> vivo otra then Inr False
      else if estado_civil self = Casado \<or> estado_civil self = Union_libre then Inr False
      else if estado_civil otra = Casado \<or> estado_civil otra = Union_libre then Inr False
      else if edad hoy self None < 18 \<or> edad hoy otra None < 18 then Inr False
      else if 15 < \<bar>edad hoy self None - edad hoy otra None\<bar> then Inr False
      else
        let afin_comun = int (fcard (afinidades self |\<inter>| afinidades otra));
            n = int (fcard (afinidades self |\<union>| afinidades otra));
            afin_total = (if n = 0 then 1 else n);
            score_emocional = (salud_emocional self + salud_emocional otra) div 2;
            comp_genetica = (if padres self \<noteq> {||} \<and> padres self = padres otra then 20 else 100)
        in case score_afinidad afin_comun afin_total of
             None \<Rightarrow> Inl OverflowError
           | Some sa \<Rightarrow>
               (case indice sa score_emocional comp_genetica of
                  None \<Rightarrow> Inl OverflowError
                | Some i \<Rightarrow> Inr (70 \<le> i)))"

section \<open>Families and the registry\<close>

text \<open>
  The members of a family are a Python dictionary, which keeps insertion order: an
  association list with distinct keys.  The dictionary holds the \<^verbatim>\<open>Persona\<close> object the
  caller supplied (\<^verbatim>\<open>self.miembros[p.cedula] = p\<close>), and the engine mutates that object
  in place.  The model stores the value of the object under its key, so that a
  reference to the object is its key in its family and mutating it is \<open>mutar\<close> at that
  key.  This agrees with the source as long as every object is reached through one
  dictionary entry only, which is the ownership the specification states (each family
  exclusively owns its persons): a \<^verbatim>\<open>Persona\<close> object is registered by one call of
  \<open>agregar_persona\<close>, in one family, and no two persons share a set or list object.
  Registering one object in two families makes every later change of it in one family a
  change in the other; such registries are outside the model.
\<close>

record familia =
  id_familia :: string
  nombre_familia :: string
  miembros :: "(string \<times> persona) list"

record arbol =
  familias :: "string \<rightharpoonup> familia"
  fecha_simulada :: fecha

definition obtener :: "familia \<Rightarrow> string \<Rightarrow> persona option" where
  "obtener fam c = map_of (miembros fam) c"

definition claves :: "familia \<Rightarrow> string list" where
  "claves fam = map fst (miembros fam)"

definition todas_personas :: "familia \<Rightarrow> persona list" where
  "todas_personas fam = map snd (miembros fam)"

definition mutar :: "string \<Rightarrow> (persona \<Rightarrow> persona) \<Rightarrow> familia \<Rightarrow> familia" where
  "mutar k f fam =
     fam\<lparr>miembros := map (\<lambda>(k', p). if k' = k then (k', f p) else (k', p)) (miembros fam)\<rparr>"

definition familia_agregar_persona :: "familia \<Rightarrow> persona \<Rightarrow> familia" where
  "familia_agregar_persona fam p =
     (if cedula p \<in> set (claves fam)
      then fam\<lparr>miembros :=
             map (\<lambda>(k', p'). if k' = cedula p then (k', p) else (k', p')) (miembros fam)\<rparr>
      else fam\<lparr>miembros := miembros fam @ [(cedula p, p)]\<rparr>)"

definition get_familia :: "arbol \<Rightarrow> string \<Rightarrow> familia option" where
  "get_familia s idf = familias s idf"

definition poner_familia :: "arbol \<Rightarrow> string \<Rightarrow> familia \<Rightarrow> arbol" where
  "poner_familia s idf fam = s\<lparr>familias := (familias s)(idf \<mapsto> fam)\<rparr>"

definition arbol_inicial :: "fecha \<Rightarrow> arbol" where
  "arbol_inicial hoy = \<lparr>familias = Map.empty, fecha_simulada = hoy\<rparr>"

section \<open>Relationship engine\<close>

text \<open>
  Each operation takes the real-world date \<open>hoy\<close> and the outcome of its random draws
  and returns what the call returns, or the exception it raises, together with the
  registry after the call.
\<close>

definition crear_familia :: "arbol \<Rightarrow> string \<Rightarrow> string \<Rightarrow> (error + unit) \<times> arbol" where
  "crear_familia s idf nom =
     (if idf \<in> dom (familias s) then (Inl ValueError_familia_ya_existe, s)
      else (Inr (), poner_familia s idf \<lparr>id_familia = idf, nombre_familia = nom, miembros = []\<rparr>))"

text \<open>
  \<open>agregar_persona\<close> mutates the person it is given; the third component of the
  result is that object after the call.  \<open>muestra\<close> is what
  \<^verbatim>\<open>random.sample(AFINIDADES, 2)\<close> returns when it is called.  The part after the
  lookup of the family is the function on the family; \<open>registrar_nacimiento\<close> and
  the clock reach it through the same lookup.
\<close>

definition es_muestra :: "string list \<Rightarrow> bool" where
  "es_muestra m = (length m = 2 \<and> distinct m \<and> set m \<subseteq> set AFINIDADES)"

definition agregar_persona_fam ::
  "fecha \<Rightarrow> string list \<Rightarrow> familia \<Rightarrow> persona \<Rightarrow> (error + unit) \<times> familia \<times> persona" where
  "agregar_persona_fam hoy muestra fam persona =
     (if cedula persona \<in> set (claves fam) then (Inl ValueError_cedula_ya_existe, fam, persona)
      else
        let p1 = (if fcard (afinidades persona) < 2
                  then persona\<lparr>afinidades := afinidades persona |\<union>| fset_of_list muestra\<rparr>
                  else persona);
            fam1 = familia_agregar_persona fam p1;
            ev = registrar_evento hoy ''Nacimiento'' (Some (fecha_nacimiento p1))
        in (Inr (), mutar (cedula p1) ev fam1, ev p1))"

definition agregar_persona ::
  "fecha \<Rightarrow> string list \<Rightarrow> arbol \<Rightarrow> string \<Rightarrow> persona \<Rightarrow> (error + unit) \<times> arbol \<times> persona" where
  "agregar_persona hoy muestra s idf persona =
     (case get_familia s idf of
        None \<Rightarrow> (Inl ValueError_familia_no_existe, s, persona)
      | Some fam \<Rightarrow>
          (case agregar_persona_fam hoy muestra fam persona of
             (Inl e, _, p') \<Rightarrow> (Inl e, s, p')
           | (Inr u, fam', p') \<Rightarrow> (Inr u, poner_familia s idf fam', p')))"

text \<open>
  The relationship operations look the family up and then work on its members; the
  part after the lookup is the function on the family.
\<close>

definition unir_pareja_fam :: "fecha \<Rightarrow> familia \<Rightarrow> string \<Rightarrow> string \<Rightarrow> (error + bool) \<times> familia" where
  "unir_pareja_fam hoy fam ced1 ced2 =
     (case (obtener fam ced1, obtener fam ced2) of
        (Some a, Some b) \<Rightarrow>
          (case es_compatible_para_union hoy a b of
             Inl e \<Rightarrow> (Inl e, fam)
           | Inr False \<Rightarrow> (Inr False, fam)
           | Inr True \<Rightarrow>
               let f1 = mutar ced1 (\<lambda>p. p\<lparr>parejas := finsert (cedula b) (parejas p)\<rparr>) fam;
                   f2 = mutar ced2 (\<lambda>p. p\<lparr>parejas := finsert (cedula a) (parejas p)\<rparr>) f1;
                   f3 = mutar ced1 (\<lambda>p. p\<lparr>estado_civil := Union_libre\<rparr>) f2;
                   f4 = mutar ced2 (\<lambda>p. p\<lparr>estado_civil := Union_libre\<rparr>) f3;
                   f5 = mutar ced1
                          (registrar_evento hoy (''Uni'' @ [CHR 0xC3, CHR 0xB3] @ ''n de pareja con '' @ nombre b) None) f4;
                   f6 = mutar ced2
                          (registrar_evento hoy (''Uni'' @ [CHR 0xC3, CHR 0xB3] @ ''n de pareja con '' @ nombre a) None) f5
               in (Inr True, f6))
      | _ \<Rightarrow> (Inr False, fam))"

definition unir_pareja :: "fecha \<Rightarrow> arbol \<Rightarrow> string \<Rightarrow> string \<Rightarrow> string \<Rightarrow> (error + bool) \<times> arbol" where
  "unir_pareja hoy s idf ced1 ced2 =
     (case get_familia s idf of
        None \<Rightarrow> (Inr False, s)
      | Some fam \<Rightarrow>
          (case unir_pareja_fam hoy fam ced1 ced2 of (r, fam') \<Rightarrow> (r, poner_familia s idf fam')))"





text \<open>
  A birth draws an identifier (\<^verbatim>\<open>str(random.randint(10_000_000, 99_999_999))\<close>), a
  name, a gender, one of the two parents' provinces and, inside \<open>agregar_persona\<close>,
  two affinities.
\<close>

definition NOMBRES :: "string list" where
  "NOMBRES = [''Alex'', ''Sam'', ''Pat'', ''Luz'', ''Mar'', ''Ari'', ''Noa'', ''Kai'']"

definition digito :: "int \<Rightarrow> char" where
  "digito n = ''0123456789'' ! nat n"

function str_int :: "int \<Rightarrow> string" where
  "str_int n =
     (if n < 0 then CHR ''-'' # str_int (- n)
      else if n < 10 then [digito n]
      else str_int (n div 10) @ [digito (n mod 10)])"
  by pat_completeness auto
termination
  by (relation "measure (\<lambda>n. if n < 0 then nat (1 - 2 * n) else nat (2 * n))") auto

declare str_int.simps [simp del]

record azar_nacimiento =
  az_numero :: int
  az_nombre :: string
  az_genero :: string
  az_primera :: bool
  az_muestra :: "string list"

definition es_azar_nacimiento :: "azar_nacimiento \<Rightarrow> bool" where
  "es_azar_nacimiento z =
     (10000000 \<le> az_numero z \<and> az_numero z \<le> 99999999 \<and> az_nombre z \<in> set NOMBRES
      \<and> (az_genero z = ''Masculino'' \<or> az_genero z = ''Femenino'') \<and> es_muestra (az_muestra z))"

definition persona_nueva :: "string \<Rightarrow> string \<Rightarrow> fecha \<Rightarrow> string \<Rightarrow> string \<Rightarrow> persona" where
  "persona_nueva c n f g pr =
     \<lparr>cedula = c, nombre = n, fecha_nacimiento = f, genero = g, provincia = pr,
      estado_civil = Soltero, fecha_fallecimiento = None, padres = {||}, hijos = {||},
      parejas = {||}, afinidades = {||}, historial = [], salud_emocional = 75\<rparr>"

definition registrar_nacimiento_fam ::
  "fecha \<Rightarrow> azar_nacimiento \<Rightarrow> fecha \<Rightarrow> familia \<Rightarrow> string \<Rightarrow> string
   \<Rightarrow> (error + persona option) \<times> familia" where
  "registrar_nacimiento_fam hoy z fs fam ced1 ced2 =
     (case (obtener fam ced1, obtener fam ced2) of
        (Some a, Some b) \<Rightarrow>
          if cedula b |\<notin>| parejas a then (Inr None, fam)
          else
            let p = persona_nueva (str_int (az_numero z)) (az_nombre z) fs (az_genero z)
                      (if az_primera z then provincia a else provincia b)
            in (case agregar_persona_fam hoy (az_muestra z) fam p of
                  (Inl e, fam', _) \<Rightarrow> (Inl e, fam')
                | (Inr _, fam1, p1) \<Rightarrow>
                    let nace = (\<lambda>q. q\<lparr>padres := padres q |\<union>| {|cedula a, cedula b|}\<rparr>);
                        f2 = mutar (cedula p) nace fam1;
                        f3 = mutar ced1 (\<lambda>q. q\<lparr>hijos := finsert (cedula p) (hijos q)\<rparr>) f2;
                        f4 = mutar ced2 (\<lambda>q. q\<lparr>hijos := finsert (cedula p) (hijos q)\<rparr>) f3;
                        f5 = mutar ced1
                               (registrar_evento hoy (''Nacimiento de hijo/a '' @ nombre p) None) f4;
                        f6 = mutar ced2
                               (registrar_evento hoy (''Nacimiento de hijo/a '' @ nombre p) None) f5
                    in (Inr (Some (nace p1)), f6))
      | _ \<Rightarrow> (Inr None, fam))"

definition registrar_nacimiento_de_pareja ::
  "fecha \<Rightarrow> azar_nacimiento \<Rightarrow> arbol \<Rightarrow> string \<Rightarrow> string \<Rightarrow> string
   \<Rightarrow> (error + persona option) \<times> arbol" where
  "registrar_nacimiento_de_pareja hoy z s idf ced1 ced2 =
     (case get_familia s idf of
        None \<Rightarrow> (Inr None, s)
      | Some fam \<Rightarrow>
          (case registrar_nacimiento_fam hoy z (fecha_simulada s) fam ced1 ced2 of
             (r, fam') \<Rightarrow> (r, poner_familia s idf fam')))"

section \<open>Side effects of a death\<close>

text \<open>
  The iteration order of a Python set is not specified; the model takes it as the
  parameter \<open>orden\<close>, any function that lists each set without repetition.
\<close>

definition es_orden :: "(string fset \<Rightarrow> string list) \<Rightarrow> bool" where
  "es_orden orden = (\<forall>S. fset_of_list (orden S) = S \<and> distinct (orden S))"



text \<open>
  Guardians.  \<open>tutor_de\<close> is the body of the loop of \<^verbatim>\<open>reasignar_tutoria_menores\<close>
  for one person: the guardian to record, if any.  \<open>maximo_por\<close> is Python's
  \<^verbatim>\<open>max(..., key=...)\<close> on a non-empty list: the first element with the largest key.
\<close>

definition candidatos_de ::
  "(string fset \<Rightarrow> string list) \<Rightarrow> familia \<Rightarrow> persona \<Rightarrow> persona list" where
  "candidatos_de orden fam pp =
     filter (\<lambda>q. \<not> (cedula q = cedula pp \<or> \<not> vivo q)
                 \<and> padres q \<noteq> {||} \<and> padres q |\<inter>| padres pp \<noteq> {||})
       (todas_personas fam)
     @ concat (map (\<lambda>ced_ab. case obtener fam ced_ab of
                               None \<Rightarrow> []
                             | Some ab \<Rightarrow> if vivo ab then [ab] else [])
                 (orden (padres pp)))"

definition candidatos ::
  "(string fset \<Rightarrow> string list) \<Rightarrow> familia \<Rightarrow> persona option list \<Rightarrow> persona list" where
  "candidatos orden fam ps =
     concat (map (\<lambda>pp. case pp of None \<Rightarrow> [] | Some pp' \<Rightarrow> candidatos_de orden fam pp') ps)"

fun maximo_por :: "('a \<Rightarrow> int) \<Rightarrow> 'a \<Rightarrow> 'a list \<Rightarrow> 'a" where
  "maximo_por key m [] = m"
| "maximo_por key m (x # xs) = maximo_por key (if key m < key x then x else m) xs"

definition tutor_de ::
  "fecha \<Rightarrow> (string fset \<Rightarrow> string list) \<Rightarrow> fecha \<Rightarrow> familia \<Rightarrow> persona \<Rightarrow> persona option" where
  "tutor_de hoy orden fs fam p =
     (if \<not> vivo p then None
      else if edad hoy p (Some fs) < 18 then
        let ps = map (obtener fam) (orden (padres p))
        in if ps \<noteq> [] \<and> list_all (\<lambda>pp. case pp of None \<Rightarrow> False | Some pp' \<Rightarrow> \<not> vivo pp') ps
           then (case candidatos orden fam ps of
                   [] \<Rightarrow> None
                 | c # cs \<Rightarrow> Some (maximo_por (\<lambda>r. edad hoy r (Some fs)) c cs))
           else None
      else None)"

fun tutoria_bucle ::
  "fecha \<Rightarrow> (string fset \<Rightarrow> string list) \<Rightarrow> fecha \<Rightarrow> string list \<Rightarrow> familia \<Rightarrow> familia" where
  "tutoria_bucle hoy orden fs [] fam = fam"
| "tutoria_bucle hoy orden fs (k # ks) fam =
     (case obtener fam k of
        None \<Rightarrow> tutoria_bucle hoy orden fs ks fam
      | Some p \<Rightarrow>
          (case tutor_de hoy orden fs fam p of
             None \<Rightarrow> tutoria_bucle hoy orden fs ks fam
           | Some tutor \<Rightarrow>
               tutoria_bucle hoy orden fs ks
                 (mutar k (registrar_evento hoy (''Tutor legal asignado: '' @ nombre tutor) None)
                    fam)))"

definition reasignar_tutoria_menores ::
  "fecha \<Rightarrow> (string fset \<Rightarrow> string list) \<Rightarrow> fecha \<Rightarrow> familia \<Rightarrow> familia" where
  "reasignar_tutoria_menores hoy orden fs fam = tutoria_bucle hoy orden fs (claves fam) fam"

section \<open>Queries\<close>

text \<open>
  \<^verbatim>\<open>descendientes_vivos\<close>: the loop runs while the stack is not empty, and nothing
  bounds it, so the model counts iterations: \<open>None\<close> when \<open>n\<close> iterations do not
  empty the stack.  The stack is kept with its top first, so \<^verbatim>\<open>stack.extend\<close> puts
  the children, reversed, in front.
\<close>

fun dv_bucle ::
  "nat \<Rightarrow> (string fset \<Rightarrow> string list) \<Rightarrow> familia \<Rightarrow> string list \<Rightarrow> persona list
   \<Rightarrow> persona list option" where
  "dv_bucle n orden fam [] res = Some res"
| "dv_bucle 0 orden fam (ced # stack) res = None"
| "dv_bucle (Suc n) orden fam (ced # stack) res =
     (case obtener fam ced of
        None \<Rightarrow> dv_bucle n orden fam stack res
      | Some p \<Rightarrow>
          dv_bucle n orden fam (rev (orden (hijos p)) @ stack) (if vivo p then res @ [p] else res))"

definition descendientes_vivos ::
  "nat \<Rightarrow> (string fset \<Rightarrow> string list) \<Rightarrow> familia \<Rightarrow> string \<Rightarrow> persona list option" where
  "descendientes_vivos n orden fam ced_x =
     (case obtener fam ced_x of
        None \<Rightarrow> Some []
      | Some x \<Rightarrow> dv_bucle n orden fam (rev (orden (hijos x))) [])"

definition nacidos_ultimos_10_anios :: "arbol \<Rightarrow> familia \<Rightarrow> error + persona list" where
  "nacidos_ultimos_10_anios s fam =
     (case reemplazar_anio (fecha_simulada s) (anio (fecha_simulada s) - 10) of
        Inl e \<Rightarrow> Inl e
      | Inr cutoff \<Rightarrow>
          Inr (filter (\<lambda>p. fecha_le cutoff (fecha_nacimiento p)) (todas_personas fam)))"

section \<open>Simulation clock\<close>











section \<open>Compatibility: the notions of the claim\<close>



section \<open>Guardians: the notions of the claim\<close>

text \<open>
  A family is well formed when it is a dictionary (distinct keys) that holds each person
  under its own identifier, as \<open>familia_agregar_persona\<close> stores them.  The orphan
  condition is stated twice: as the source tests it (every parent identifier resolves to
  a deceased member) and as the specification words it (every parent that resolves is
  deceased).  \<open>es_candidato\<close> follows the specification: a living member who is another
  person than a deceased parent of the minor and shares a parent with it, or a living
  parent of such a deceased parent.
\<close>

definition familia_ok :: "familia \<Rightarrow> bool" where
  "familia_ok fam = (distinct (claves fam) \<and> (\<forall>(k, p) \<in> set (miembros fam). cedula p = k))"

definition todos_fallecidos :: "familia \<Rightarrow> persona \<Rightarrow> bool" where
  "todos_fallecidos fam p =
     fBall (padres p) (\<lambda>c. case obtener fam c of None \<Rightarrow> False | Some pp \<Rightarrow> \<not> vivo pp)"

definition resueltos_fallecidos :: "familia \<Rightarrow> persona \<Rightarrow> bool" where
  "resueltos_fallecidos fam p =
     fBall (padres p) (\<lambda>c. case obtener fam c of None \<Rightarrow> True | Some pp \<Rightarrow> \<not> vivo pp)"

definition es_candidato :: "familia \<Rightarrow> persona \<Rightarrow> persona \<Rightarrow> bool" where
  "es_candidato fam p q =
     (q \<in> set (todas_personas fam) \<and> vivo q
      \<and> fBex (padres p) (\<lambda>c. case obtener fam c of
            None \<Rightarrow> False
          | Some pp \<Rightarrow> \<not> vivo pp
              \<and> ((q \<noteq> pp \<and> padres q |\<inter>| padres pp \<noteq> {||})
                 \<or> fBex (padres pp) (\<lambda>g. obtener fam g = Some q))))"

text \<open>
  Auxiliary notions for the proof: the guardian pass changes histories only, and
  \<open>anotar\<close> is what it does to one member.
\<close>

definition borrar_historial :: "persona \<Rightarrow> persona" where
  "borrar_historial p = p\<lparr>historial := []\<rparr>"

definition sin_historial :: "familia \<Rightarrow> familia" where
  "sin_historial fam = fam\<lparr>miembros := map (\<lambda>(k, p). (k, borrar_historial p)) (miembros fam)\<rparr>"

definition anotar ::
  "fecha \<Rightarrow> (string fset \<Rightarrow> string list) \<Rightarrow> fecha \<Rightarrow> familia \<Rightarrow> persona \<Rightarrow> persona" where
  "anotar hoy orden fs fam p =
     (case tutor_de hoy orden fs (sin_historial fam) (borrar_historial p) of
        None \<Rightarrow> p
      | Some t \<Rightarrow> registrar_evento hoy (''Tutor legal asignado: '' @ nombre t) None p)"

definition ej_abuela :: persona where
  "ej_abuela = persona_nueva ''20000001'' ''Marta'' \<lparr>anio = 1960, mes = 7, dia = 1\<rparr> ''Femenino'' ''Cartago''"

definition ej_madre :: persona where
  "ej_madre = (persona_nueva ''20000002'' ''Rosa'' \<lparr>anio = 1985, mes = 5, dia = 10\<rparr> ''Femenino'' ''Cartago'')
                \<lparr>fecha_fallecimiento := Some \<lparr>anio = 2024, mes = 3, dia = 1\<rparr>, padres := {|''20000001''|}\<rparr>"

definition ej_tia :: persona where
  "ej_tia = (persona_nueva ''20000004'' ''Eva'' \<lparr>anio = 1988, mes = 2, dia = 2\<rparr> ''Femenino'' ''Cartago'')
              \<lparr>padres := {|''20000001''|}\<rparr>"

definition ej_menor :: persona where
  "ej_menor = (persona_nueva ''20000003'' ''Noa'' \<lparr>anio = 2015, mes = 3, dia = 3\<rparr> ''Femenino'' ''Cartago'')
                \<lparr>padres := {|''20000002''|}\<rparr>"

definition ej_menor_x :: persona where
  "ej_menor_x = ej_menor\<lparr>padres := {|''20000002'', ''99999999''|}\<rparr>"

definition ej_familia_tutela :: familia where
  "ej_familia_tutela = \<lparr>id_familia = ''F2'', nombre_familia = ''Vega'',
      miembros = [(''20000001'', ej_abuela), (''20000002'', ej_madre), (''20000004'', ej_tia),
                  (''20000003'', ej_menor)]\<rparr>"

definition ej_familia_tutela_x :: familia where
  "ej_familia_tutela_x = \<lparr>id_familia = ''F2'', nombre_familia = ''Vega'',
      miembros = [(''20000001'', ej_abuela), (''20000002'', ej_madre), (''20000004'', ej_tia),
                  (''20000003'', ej_menor_x)]\<rparr>"

section \<open>Descendants: the notions of the claim\<close>

text \<open>
  The child links of a family go from the identifier of a member to the identifiers in
  its set of children.  A cycle is reachable from \<open>x\<close> when some identifier reached from
  \<open>x\<close> by one or more links reaches itself by one or more links.  The living
  descendants of \<open>x\<close> are the living members reached from \<open>x\<close> by one or more links.
  \<open>sin_fin\<close>, \<open>vivos_desde\<close> and \<open>agota\<close> serve the proof: the identifiers from
  which a cycle is reached, the living members reached by zero or more links, and the
  lists of identifiers the loop works off in finitely many iterations.
\<close>

definition hijo_de :: "familia \<Rightarrow> (string \<times> string) set" where
  "hijo_de fam = {(a, b). \<exists>pa. obtener fam a = Some pa \<and> b |\<in>| hijos pa}"

definition ciclo_alcanzable :: "familia \<Rightarrow> string \<Rightarrow> bool" where
  "ciclo_alcanzable fam x = (\<exists>c. (x, c) \<in> (hijo_de fam)\<^sup>+ \<and> (c, c) \<in> (hijo_de fam)\<^sup>+)"

definition descendientes_vivos_de :: "familia \<Rightarrow> string \<Rightarrow> persona set" where
  "descendientes_vivos_de fam x =
     {p. \<exists>d. (x, d) \<in> (hijo_de fam)\<^sup>+ \<and> obtener fam d = Some p \<and> vivo p}"

definition sin_fin :: "familia \<Rightarrow> string set" where
  "sin_fin fam = {c. \<exists>d. (c, d) \<in> (hijo_de fam)\<^sup>* \<and> (d, d) \<in> (hijo_de fam)\<^sup>+}"

definition vivos_desde :: "familia \<Rightarrow> string \<Rightarrow> persona set" where
  "vivos_desde fam c = {p. \<exists>d. (c, d) \<in> (hijo_de fam)\<^sup>* \<and> obtener fam d = Some p \<and> vivo p}"

definition agota :: "(string fset \<Rightarrow> string list) \<Rightarrow> familia \<Rightarrow> string list \<Rightarrow> bool" where
  "agota orden fam cs =
     (\<exists>m out. (\<forall>n stack res. dv_bucle (n + m) orden fam (cs @ stack) res
                                = dv_bucle n orden fam stack (res @ out))
              \<and> set out = (\<Union>c \<in> set cs. vivos_desde fam c))"

section \<open>Reachable states and the partner invariant\<close>






definition neutra :: "(persona \<Rightarrow> persona) \<Rightarrow> bool" where
  "neutra f = (\<forall>p. cedula (f p) = cedula p \<and> vivo (f p) = vivo p \<and> parejas (f p) = parejas p)"

section \<open>Example states\<close>

text \<open>
  A registry built by the engine's own operations, for the concrete instances below:
  family \<open>F1\<close> with Ana and Luis, then united.
\<close>

definition ej_hoy :: fecha where "ej_hoy = \<lparr>anio = 2025, mes = 1, dia = 1\<rparr>"

definition ej_ana :: persona where
  "ej_ana = (persona_nueva ''10000001'' ''Ana'' \<lparr>anio = 1985, mes = 5, dia = 10\<rparr> ''Femenino'' ''Cartago'')
              \<lparr>afinidades := {|''Arte'', ''Viajes''|}\<rparr>"

definition ej_luis :: persona where
  "ej_luis = (persona_nueva ''10000002'' ''Luis'' \<lparr>anio = 1982, mes = 3, dia = 2\<rparr> ''Masculino'' ''Alajuela'')
               \<lparr>afinidades := {|''Arte'', ''Viajes''|}\<rparr>"

definition ej_eva :: persona where
  "ej_eva = (persona_nueva ''10000003'' ''Eva'' \<lparr>anio = 1990, mes = 7, dia = 1\<rparr> ''Femenino'' ''Heredia'')
              \<lparr>afinidades := {|''Deporte''|}\<rparr>"

definition ej_muestra :: "string list" where
  "ej_muestra = [''Arte'', ''Ciencia'']"

definition ej_arbol1 :: arbol where
  "ej_arbol1 = snd (crear_familia (arbol_inicial ej_hoy) ''F1'' ''Mora'')"

definition ej_arbol2 :: arbol where
  "ej_arbol2 = fst (snd (agregar_persona ej_hoy ej_muestra ej_arbol1 ''F1'' ej_ana))"

definition ej_arbol3 :: arbol where
  "ej_arbol3 = fst (snd (agregar_persona ej_hoy ej_muestra ej_arbol2 ''F1'' ej_luis))"

definition ej_arbol4 :: arbol where
  "ej_arbol4 = snd (unir_pareja ej_hoy ej_arbol3 ''F1'' ''10000001'' ''10000002'')"


definition ej_ana1 :: persona where
  "ej_ana1 = ej_ana\<lparr>historial := [(1985, ''Nacimiento'')]\<rparr>"

definition ej_luis1 :: persona where
  "ej_luis1 = ej_luis\<lparr>historial := [(1982, ''Nacimiento'')]\<rparr>"

definition ej_familia3 :: familia where
  "ej_familia3 = \<lparr>id_familia = ''F1'', nombre_familia = ''Mora'',
      miembros = [(''10000001'', ej_ana1), (''10000002'', ej_luis1)]\<rparr>"

definition ej_ana_unida :: persona where
  "ej_ana_unida = ej_ana1\<lparr>estado_civil := Union_libre, parejas := {|''10000002''|},
      historial := [(1985, ''Nacimiento''),
                    (2025, ''Uni'' @ [CHR 0xC3, CHR 0xB3] @ ''n de pareja con Luis'')]\<rparr>"

definition ej_luis_unido :: persona where
  "ej_luis_unido = ej_luis1\<lparr>estado_civil := Union_libre, parejas := {|''10000001''|},
      historial := [(1982, ''Nacimiento''),
                    (2025, ''Uni'' @ [CHR 0xC3, CHR 0xB3] @ ''n de pareja con Ana'')]\<rparr>"

definition ej_familia_unida :: familia where
  "ej_familia_unida = \<lparr>id_familia = ''F1'', nombre_familia = ''Mora'',
      miembros = [(''10000001'', ej_ana_unida), (''10000002'', ej_luis_unido)]\<rparr>"

definition ej_azar_hijo :: azar_nacimiento where
  "ej_azar_hijo = \<lparr>az_numero = 10000001, az_nombre = ''Alex'', az_genero = ''Femenino'',
      az_primera = True, az_muestra = [''Arte'', ''Ciencia'']\<rparr>"

definition ej_nino_2014 :: persona where
  "ej_nino_2014 = persona_nueva ''10000005'' ''Sam'' \<lparr>anio = 2014, mes = 6, dia = 1\<rparr> ''Masculino'' ''Cartago''"

definition ej_nino_2016 :: persona where
  "ej_nino_2016 = persona_nueva ''10000006'' ''Luz'' \<lparr>anio = 2016, mes = 1, dia = 2\<rparr> ''Femenino'' ''Cartago''"

definition ej_familia_ninos :: familia where
  "ej_familia_ninos = \<lparr>id_familia = ''F1'', nombre_familia = ''Mora'',
      miembros = [(''10000005'', ej_nino_2014), (''10000006'', ej_nino_2016)]\<rparr>"


definition ej_familia_linaje :: familia where
  "ej_familia_linaje = \<lparr>id_familia = ''F2'', nombre_familia = ''Vega'',
      miembros = [(''20000001'', ej_abuela\<lparr>hijos := {|''20000002'', ''20000004''|}\<rparr>),
                  (''20000002'', ej_madre\<lparr>hijos := {|''20000003''|}\<rparr>),
                  (''20000004'', ej_tia), (''20000003'', ej_menor)]\<rparr>"

definition ej_familia_ciclo :: familia where
  "ej_familia_ciclo = \<lparr>id_familia = ''F2'', nombre_familia = ''Vega'',
      miembros = [(''20000001'', ej_abuela\<lparr>hijos := {|''20000002'', ''20000004''|}\<rparr>),
                  (''20000002'', ej_madre\<lparr>hijos := {|''20000003''|}\<rparr>),
                  (''20000004'', ej_tia), (''20000003'', ej_menor\<lparr>hijos := {|''20000001''|}\<rparr>)]\<rparr>"

definition ej_rango :: "string \<Rightarrow> nat" where
  "ej_rango k = (if k = ''20000001'' then 0 else if k = ''20000002'' then 1 else 2)"











section \<open>Age\<close>

lemma anios_entre_mono:
  "fecha_le (case r1 of None \<Rightarrow> h1 | Some r \<Rightarrow> r) (case r2 of None \<Rightarrow> h2 | Some r \<Rightarrow> r)
   \<Longrightarrow> anios_entre h1 f r1 \<le> anios_entre h2 f r2"
  by (cases f) (auto simp: anios_entre_def fecha_le_def md_menor_def Let_def)

lemma anios_entre_nonneg: "0 \<le> anios_entre hoy f ref"
  by (cases f) (simp_all add: anios_entre_def Let_def)

text \<open>
  C8.  The age of a person never decreases when the reference date advances (the
  reference being the date given or, when none is given, the real-world date), is never
  negative, and for a deceased person is the number of years between birth and death
  whatever the reference date and the real-world date.
\<close>

theorem edad_monotone_nonneg_constant:
  "(fecha_le (case r1 of None \<Rightarrow> h1 | Some r \<Rightarrow> r) (case r2 of None \<Rightarrow> h2 | Some r \<Rightarrow> r)
      \<longrightarrow> edad h1 p r1 \<le> edad h2 p r2)
   \<and> 0 \<le> edad h1 p r1
   \<and> (fecha_fallecimiento p = Some d \<longrightarrow>
        edad h1 p r1 = anios_entre h1 (Some (fecha_nacimiento p)) (Some d)
        \<and> edad h1 p r1 = edad h2 p r2)"
proof (intro conjI impI)
  assume "fecha_le (case r1 of None \<Rightarrow> h1 | Some r \<Rightarrow> r) (case r2 of None \<Rightarrow> h2 | Some r \<Rightarrow> r)"
  then show "edad h1 p r1 \<le> edad h2 p r2"
  proof (cases "fecha_fallecimiento p")
    case None
    with \<open>fecha_le _ _\<close> show ?thesis by (simp add: edad_def anios_entre_mono)
  next
    case (Some a)
    then show ?thesis by (simp add: edad_def anios_entre_def)
  qed
next
  show "0 \<le> edad h1 p r1"
    by (cases "fecha_fallecimiento p") (simp_all add: edad_def anios_entre_nonneg)
next
  assume "fecha_fallecimiento p = Some d"
  then show "edad h1 p r1 = anios_entre h1 (Some (fecha_nacimiento p)) (Some d)"
    by (simp add: edad_def)
next
  assume "fecha_fallecimiento p = Some d"
  then show "edad h1 p r1 = edad h2 p r2"
    by (simp add: edad_def anios_entre_def)
qed

theorem edad_monotone_nonneg_constant_witness:
  "fecha_le \<lparr>anio = 2025, mes = 5, dia = 9\<rparr> \<lparr>anio = 2025, mes = 5, dia = 10\<rparr>
   \<and> edad ej_hoy ej_ana (Some \<lparr>anio = 2025, mes = 5, dia = 9\<rparr>) = 39
   \<and> edad ej_hoy ej_ana (Some \<lparr>anio = 2025, mes = 5, dia = 10\<rparr>) = 40
   \<and> fecha_fallecimiento (ej_ana\<lparr>fecha_fallecimiento := Some \<lparr>anio = 2020, mes = 1, dia = 1\<rparr>\<rparr>)
       = Some \<lparr>anio = 2020, mes = 1, dia = 1\<rparr>
   \<and> edad ej_hoy (ej_ana\<lparr>fecha_fallecimiento := Some \<lparr>anio = 2020, mes = 1, dia = 1\<rparr>\<rparr>) None = 34
   \<and> edad ej_hoy (ej_ana\<lparr>fecha_fallecimiento := Some \<lparr>anio = 2020, mes = 1, dia = 1\<rparr>\<rparr>) None
       = edad \<lparr>anio = 2030, mes = 1, dia = 1\<rparr>
           (ej_ana\<lparr>fecha_fallecimiento := Some \<lparr>anio = 2020, mes = 1, dia = 1\<rparr>\<rparr>)
           (Some \<lparr>anio = 2040, mes = 1, dia = 1\<rparr>)"
  using edad_monotone_nonneg_constant
          [where ?r1.0 = "Some \<lparr>anio = 2025, mes = 5, dia = 9\<rparr>" and ?h1.0 = ej_hoy
             and ?r2.0 = "Some \<lparr>anio = 2025, mes = 5, dia = 10\<rparr>" and ?h2.0 = ej_hoy
             and p = ej_ana]
        edad_monotone_nonneg_constant
          [where ?r1.0 = None and ?h1.0 = ej_hoy
             and ?r2.0 = "Some \<lparr>anio = 2040, mes = 1, dia = 1\<rparr>"
             and ?h2.0 = "\<lparr>anio = 2030, mes = 1, dia = 1\<rparr>"
             and p = "ej_ana\<lparr>fecha_fallecimiento := Some \<lparr>anio = 2020, mes = 1, dia = 1\<rparr>\<rparr>"
             and d = "\<lparr>anio = 2020, mes = 1, dia = 1\<rparr>"]
  by (simp add: fecha_le_def edad_def anios_entre_def md_menor_def ej_ana_def persona_nueva_def
        ej_hoy_def)

section \<open>Lookups and updates in a family\<close>

lemma obtener_mutar:
  "obtener (mutar k f fam) c = (if c = k then map_option f (obtener fam c) else obtener fam c)"
proof -
  have "map_of (map (\<lambda>(k', p). if k' = k then (k', f p) else (k', p)) ms) c
        = (if c = k then map_option f (map_of ms c) else map_of ms c)" for ms
    by (induction ms) auto
  then show ?thesis by (simp add: obtener_def mutar_def)
qed

lemma claves_mutar: "claves (mutar k f fam) = claves fam"
  by (simp add: claves_def mutar_def comp_def case_prod_unfold if_distrib cong: if_cong)

lemma obtener_None_iff: "obtener fam c = None \<longleftrightarrow> c \<notin> set (claves fam)"
  by (simp add: obtener_def claves_def map_of_eq_None_iff)

lemma obtener_agregar_nuevo:
  "cedula p \<notin> set (claves fam) \<Longrightarrow>
   obtener (familia_agregar_persona fam p) c = (if c = cedula p then Some p else obtener fam c)"
  using obtener_None_iff[of fam "cedula p"]
  by (auto simp: familia_agregar_persona_def obtener_def map_add_def split: option.splits)

lemma poner_familia_triv: "get_familia s idf = Some fam \<Longrightarrow> poner_familia s idf fam = s"
  by (simp add: poner_familia_def get_familia_def map_upd_triv)

lemma ej1: "get_familia ej_arbol1 ''F1'' = Some \<lparr>id_familia = ''F1'', nombre_familia = ''Mora'', miembros = []\<rparr>"
  by (simp add: ej_arbol1_def crear_familia_def arbol_inicial_def poner_familia_def get_familia_def)


lemma get_poner_familia:
  "get_familia (poner_familia s i f) j = (if j = i then Some f else get_familia s j)"
  by (simp add: get_familia_def poner_familia_def)


lemma ej2:
  "get_familia ej_arbol2 ''F1'' = Some \<lparr>id_familia = ''F1'', nombre_familia = ''Mora'',
      miembros = [(''10000001'', ej_ana\<lparr>historial := [(1985, ''Nacimiento'')]\<rparr>)]\<rparr>"
  by (simp add: ej_arbol2_def agregar_persona_def agregar_persona_fam_def ej1 claves_def Let_def
        familia_agregar_persona_def mutar_def get_poner_familia
        registrar_evento_def ej_ana_def persona_nueva_def fcard_finsert_if fcard_fempty)

lemma ej3: "get_familia ej_arbol3 ''F1'' = Some ej_familia3"
  by (simp add: ej_arbol3_def agregar_persona_def agregar_persona_fam_def ej2 claves_def Let_def
        familia_agregar_persona_def mutar_def get_poner_familia ej_familia3_def ej_ana1_def ej_luis1_def
        registrar_evento_def ej_ana_def ej_luis_def persona_nueva_def fcard_finsert_if
        fcard_fempty)

lemma ej_compatibles: "es_compatible_para_union ej_hoy ej_ana1 ej_luis1 = Inr True"
  by code_simp

lemma ej_unir: "unir_pareja_fam ej_hoy ej_familia3 ''10000001'' ''10000002'' = (Inr True, ej_familia_unida)"
  by (simp add: unir_pareja_fam_def obtener_def ej_familia3_def ej_compatibles)
     (simp add: Let_def mutar_def ej_familia_unida_def ej_ana_unida_def ej_luis_unido_def
        ej_ana1_def ej_luis1_def registrar_evento_def ej_ana_def ej_luis_def persona_nueva_def ej_hoy_def)

lemma ej4: "get_familia ej_arbol4 ''F1'' = Some ej_familia_unida"
  by (simp add: ej_arbol4_def unir_pareja_def ej3 ej_unir get_poner_familia)

lemma ej_str: "str_int 10000001 = ''10000001''"
  by code_simp











section \<open>Compatibility index\<close>

































section \<open>Registration\<close>

text \<open>
  C6.  \<open>crear_familia\<close> raises exactly when the identifier is already registered, and
  \<open>agregar_persona\<close> exactly when the family is absent or the person's identifier is a
  key of the family's members.  When either raises, the registry (so every family's
  members) and the person given are as before; when \<open>crear_familia\<close> returns, the new
  empty family is registered under the identifier, and when \<open>agregar_persona\<close>
  returns, the person is a member of the family under its identifier.
\<close>

theorem registro_errores:
  "(isl (fst (crear_familia s idf nom)) \<longleftrightarrow> idf \<in> dom (familias s))
   \<and> (isl (fst (crear_familia s idf nom)) \<longrightarrow> snd (crear_familia s idf nom) = s)
   \<and> (\<not> isl (fst (crear_familia s idf nom)) \<longrightarrow>
        get_familia (snd (crear_familia s idf nom)) idf
          = Some \<lparr>id_familia = idf, nombre_familia = nom, miembros = []\<rparr>)
   \<and> (isl (fst (agregar_persona hoy m s idf p)) \<longleftrightarrow>
        (case get_familia s idf of None \<Rightarrow> True | Some fam \<Rightarrow> cedula p \<in> set (claves fam)))
   \<and> (isl (fst (agregar_persona hoy m s idf p)) \<longrightarrow> snd (agregar_persona hoy m s idf p) = (s, p))
   \<and> (\<not> isl (fst (agregar_persona hoy m s idf p)) \<longrightarrow>
        (\<exists>fam'. get_familia (fst (snd (agregar_persona hoy m s idf p))) idf = Some fam'
                \<and> obtener fam' (cedula p) = Some (snd (snd (agregar_persona hoy m s idf p)))))"
  by (auto simp: crear_familia_def agregar_persona_def agregar_persona_fam_def Let_def
        get_familia_def poner_familia_def obtener_mutar obtener_agregar_nuevo
        split: option.splits)


theorem registro_errores_witness:
  "\<not> isl (fst (crear_familia (arbol_inicial ej_hoy) ''F1'' ''Mora''))
   \<and> get_familia (snd (crear_familia (arbol_inicial ej_hoy) ''F1'' ''Mora'')) ''F1''
       = Some \<lparr>id_familia = ''F1'', nombre_familia = ''Mora'', miembros = []\<rparr>
   \<and> isl (fst (crear_familia ej_arbol1 ''F1'' ''Otra''))
   \<and> snd (crear_familia ej_arbol1 ''F1'' ''Otra'') = ej_arbol1
   \<and> isl (fst (agregar_persona ej_hoy ej_muestra ej_arbol1 ''F2'' ej_ana))
   \<and> snd (agregar_persona ej_hoy ej_muestra ej_arbol1 ''F2'' ej_ana) = (ej_arbol1, ej_ana)
   \<and> \<not> isl (fst (agregar_persona ej_hoy ej_muestra ej_arbol1 ''F1'' ej_ana))
   \<and> (\<exists>fam'. get_familia (fst (snd (agregar_persona ej_hoy ej_muestra ej_arbol1 ''F1'' ej_ana))) ''F1'' = Some fam'
          \<and> obtener fam' (cedula ej_ana) = Some (snd (snd (agregar_persona ej_hoy ej_muestra ej_arbol1 ''F1'' ej_ana))))"
proof -
  have a: "''F1'' \<notin> dom (familias (arbol_inicial ej_hoy))"
    by (simp add: arbol_inicial_def)
  have b: "''F1'' \<in> dom (familias ej_arbol1)"
    using ej1 by (auto simp: get_familia_def)
  have c: "get_familia ej_arbol1 ''F2'' = None"
    by (simp add: ej_arbol1_def crear_familia_def arbol_inicial_def poner_familia_def get_familia_def)
  have d: "(case get_familia ej_arbol1 ''F1'' of None \<Rightarrow> True | Some fam \<Rightarrow> cedula ej_ana \<in> set (claves fam)) = False"
    by (simp add: ej1 claves_def)
  show ?thesis
    using registro_errores [of "arbol_inicial ej_hoy" "''F1''" "''Mora''" ej_hoy ej_muestra ej_ana]
      registro_errores [of ej_arbol1 "''F2''" "''Otra''" ej_hoy ej_muestra ej_ana]
      registro_errores [of ej_arbol1 "''F1''" "''Otra''" ej_hoy ej_muestra ej_ana]
      a b c d
    by simp
qed



section \<open>Affinities on registration\<close>

text \<open>
  C4, as claimed: a person given with fewer than two affinities has exactly two after
  \<open>agregar_persona\<close>.  It fails for a person given with one affinity when neither of
  the two labels drawn is that one: Eva is given with \<open>Deporte\<close>, the draw is
  \<open>Arte\<close>, \<open>Ciencia\<close>, and she ends with three.
\<close>

theorem afinidades_tres_counterexample:
  "fcard (afinidades ej_eva) < 2
   \<and> es_muestra [''Arte'', ''Ciencia'']
   \<and> fst (agregar_persona ej_hoy [''Arte'', ''Ciencia''] ej_arbol2 ''F1'' ej_eva) = Inr ()
   \<and> fcard (afinidades (snd (snd (agregar_persona ej_hoy [''Arte'', ''Ciencia''] ej_arbol2 ''F1'' ej_eva)))) = 3"
  by (simp add: agregar_persona_def agregar_persona_fam_def ej2 claves_def Let_def
        es_muestra_def AFINIDADES_def registrar_evento_def ej_eva_def persona_nueva_def
        fcard_finsert_if fcard_fempty)

lemma fcard_fset_of_list_muestra: "es_muestra m \<Longrightarrow> fcard (fset_of_list m) = 2"
  by (simp add: es_muestra_def fcard.rep_eq fset_of_list.rep_eq distinct_card)

text \<open>
  C4, amended.  A person given with fewer than two affinities has, after
  \<open>agregar_persona\<close> returns, the affinities given together with the two distinct
  labels drawn from the vocabulary: at least two and at most three.  They are exactly two,
  all of the vocabulary, when the affinities given are among the two drawn (none given in
  particular), and all of the vocabulary whenever those given are.
\<close>

theorem afinidades_al_agregar:
  assumes "fcard (afinidades p) < 2" and "es_muestra m"
    and "agregar_persona hoy m s idf p = (Inr (), s', p')"
  shows "afinidades p' = afinidades p |\<union>| fset_of_list m
         \<and> 2 \<le> fcard (afinidades p') \<and> fcard (afinidades p') \<le> 3
         \<and> (afinidades p |\<subseteq>| fset_of_list m \<longrightarrow>
              fcard (afinidades p') = 2 \<and> fset (afinidades p') \<subseteq> set AFINIDADES)
         \<and> (fset (afinidades p) \<subseteq> set AFINIDADES \<longrightarrow> fset (afinidades p') \<subseteq> set AFINIDADES)"
proof -
  have eq: "afinidades p' = afinidades p |\<union>| fset_of_list m"
    using assms(1,3)
    by (auto simp: agregar_persona_def agregar_persona_fam_def Let_def registrar_evento_def
          split: option.splits if_splits)
  have c2: "fcard (fset_of_list m) = 2" by (rule fcard_fset_of_list_muestra [OF assms(2)])
  have lo: "fcard (fset_of_list m) \<le> fcard (afinidades p |\<union>| fset_of_list m)"
    by (rule fcard_mono) auto
  have hi: "fcard (afinidades p |\<union>| fset_of_list m) \<le> fcard (afinidades p) + fcard (fset_of_list m)"
    by (simp add: fcard.rep_eq card_Un_le)
  have sub: "set m \<subseteq> set AFINIDADES" using assms(2) by (simp add: es_muestra_def)
  have absorb: "afinidades p |\<subseteq>| fset_of_list m \<Longrightarrow> afinidades p |\<union>| fset_of_list m = fset_of_list m"
    by auto
  show ?thesis
    using eq c2 lo hi assms(1) sub absorb
    by (auto simp: fset_of_list.rep_eq)
qed


theorem afinidades_al_agregar_witness:
  "fcard (afinidades ej_eva) < 2 \<and> es_muestra [''Arte'', ''Ciencia'']
   \<and> fst (agregar_persona ej_hoy [''Arte'', ''Ciencia''] ej_arbol2 ''F1'' ej_eva) = Inr ()
   \<and> afinidades (snd (snd (agregar_persona ej_hoy [''Arte'', ''Ciencia''] ej_arbol2 ''F1'' ej_eva)))
       = {|''Deporte'', ''Arte'', ''Ciencia''|}
   \<and> \<not> afinidades ej_eva |\<subseteq>| fset_of_list [''Arte'', ''Ciencia'']
   \<and> fset (afinidades ej_eva) \<subseteq> set AFINIDADES"
proof -
  let ?r = "agregar_persona ej_hoy [''Arte'', ''Ciencia''] ej_arbol2 ''F1'' ej_eva"
  have h1: "fcard (afinidades ej_eva) < 2"
    by (simp add: ej_eva_def persona_nueva_def fcard_finsert_if fcard_fempty)
  have h2: "es_muestra [''Arte'', ''Ciencia'']"
    by (simp add: es_muestra_def AFINIDADES_def)
  have h3: "fst ?r = Inr ()"
    by (simp add: agregar_persona_def agregar_persona_fam_def ej2 claves_def Let_def
          ej_eva_def persona_nueva_def)
  then have h4: "?r = (Inr (), fst (snd ?r), snd (snd ?r))"
    by (metis prod.collapse)
  show ?thesis
    using afinidades_al_agregar [OF h1 h2 h4] h1 h2 h3
    by (auto simp: ej_eva_def persona_nueva_def AFINIDADES_def)
qed


section \<open>Births in the last ten years\<close>

lemma bisiesto_menos_10: "es_bisiesto y \<Longrightarrow> \<not> es_bisiesto (y - 10)"
  unfolding es_bisiesto_def by presburger

text \<open>
  C10, as claimed: for every simulated date other than a 29 February the query returns
  a list.  It fails for the dates of the years 1 to 10, whose cutoff year is not a year
  of the calendar: on 1 March of year 10 the query raises.
\<close>

theorem nacidos_sin_fecha_de_corte_counterexample:
  "fecha_valida \<lparr>anio = 10, mes = 3, dia = 1\<rparr>
   \<and> \<not> (mes \<lparr>anio = 10, mes = 3, dia = 1\<rparr> = 2 \<and> dia \<lparr>anio = 10, mes = 3, dia = 1\<rparr> = 29)
   \<and> nacidos_ultimos_10_anios
        \<lparr>familias = Map.empty, fecha_simulada = \<lparr>anio = 10, mes = 3, dia = 1\<rparr>\<rparr>
        \<lparr>id_familia = ''F1'', nombre_familia = ''Mora'', miembros = []\<rparr>
      = Inl ValueError_fecha"
  by (simp add: nacidos_ultimos_10_anios_def reemplazar_anio_def fecha_valida_def dias_del_mes_def)

text \<open>
  C10, amended.  The query is not total in the simulated date: it raises
  \<^verbatim>\<open>ValueError\<close> when the simulated date is a 29 February (ten years before a leap
  year is never a leap year) or lies in the years 1 to 10; for every other simulated date
  it returns, in the order of the family, exactly the persons whose birth date is on or
  after the same month and day ten years earlier.
\<close>

theorem nacidos_ultimos_10_anios_dominio:
  assumes "fecha_valida (fecha_simulada s)"
  shows "nacidos_ultimos_10_anios s fam =
           (if (mes (fecha_simulada s) = 2 \<and> dia (fecha_simulada s) = 29) \<or> anio (fecha_simulada s) \<le> 10
            then Inl ValueError_fecha
            else Inr (filter (\<lambda>p. fecha_le ((fecha_simulada s)\<lparr>anio := anio (fecha_simulada s) - 10\<rparr>)
                                    (fecha_nacimiento p))
                        (todas_personas fam)))"
proof -
  let ?d = "fecha_simulada s"
  have v: "fecha_valida (?d\<lparr>anio := anio ?d - 10\<rparr>)
           \<longleftrightarrow> \<not> ((mes ?d = 2 \<and> dia ?d = 29) \<or> anio ?d \<le> 10)"
    using assms bisiesto_menos_10 [of "anio ?d"]
    by (auto simp: fecha_valida_def dias_del_mes_def split: if_splits)
  show ?thesis
    using v by (simp add: nacidos_ultimos_10_anios_def reemplazar_anio_def Let_def)
qed

theorem nacidos_ultimos_10_anios_dominio_witness:
  "fecha_valida (fecha_simulada (arbol_inicial ej_hoy))
   \<and> nacidos_ultimos_10_anios (arbol_inicial ej_hoy) ej_familia_ninos = Inr [ej_nino_2016]
   \<and> fecha_valida (fecha_simulada (arbol_inicial \<lparr>anio = 2024, mes = 2, dia = 29\<rparr>))
   \<and> nacidos_ultimos_10_anios (arbol_inicial \<lparr>anio = 2024, mes = 2, dia = 29\<rparr>) ej_familia_ninos
       = Inl ValueError_fecha"
proof -
  have v: "fecha_valida (fecha_simulada (arbol_inicial ej_hoy))"
    by (simp add: arbol_inicial_def ej_hoy_def fecha_valida_def dias_del_mes_def)
  have w: "fecha_valida (fecha_simulada (arbol_inicial \<lparr>anio = 2024, mes = 2, dia = 29\<rparr>))"
    by (simp add: arbol_inicial_def fecha_valida_def dias_del_mes_def es_bisiesto_def)
  show ?thesis
    using nacidos_ultimos_10_anios_dominio [OF v, of ej_familia_ninos]
      nacidos_ultimos_10_anios_dominio [OF w, of ej_familia_ninos] v w
    by (simp add: arbol_inicial_def ej_hoy_def todas_personas_def fecha_le_def ej_familia_ninos_def
          ej_nino_2014_def ej_nino_2016_def persona_nueva_def)
qed

section \<open>Births\<close>

text \<open>
  C9.  \<open>registrar_nacimiento_de_pareja\<close> does not always return the new person or
  \<^verbatim>\<open>None\<close>: whenever the two persons are members, the second is a partner of the
  first, and the identifier drawn is already the identifier of a member, it raises the
  duplicate-identifier \<^verbatim>\<open>ValueError\<close> of \<open>agregar_persona\<close> and leaves the registry,
  so the parents' sets of children, as it was.  The instance after it is Ana and Luis
  united and the draw of Ana's own eight-digit identifier.
\<close>

theorem nacimiento_cedula_duplicada:
  assumes "get_familia s idf = Some fam" and "obtener fam ced1 = Some a"
    and "obtener fam ced2 = Some b" and "cedula b |\<in>| parejas a"
    and "str_int (az_numero z) \<in> set (claves fam)"
  shows "registrar_nacimiento_de_pareja hoy z s idf ced1 ced2 = (Inl ValueError_cedula_ya_existe, s)"
  using assms
  by (simp add: registrar_nacimiento_de_pareja_def registrar_nacimiento_fam_def Let_def
        agregar_persona_fam_def persona_nueva_def poner_familia_triv)

theorem nacimiento_cedula_duplicada_witness:
  "es_azar_nacimiento ej_azar_hijo
   \<and> get_familia ej_arbol4 ''F1'' = Some ej_familia_unida
   \<and> obtener ej_familia_unida ''10000001'' = Some ej_ana_unida
   \<and> obtener ej_familia_unida ''10000002'' = Some ej_luis_unido
   \<and> cedula ej_luis_unido |\<in>| parejas ej_ana_unida
   \<and> str_int (az_numero ej_azar_hijo) \<in> set (claves ej_familia_unida)
   \<and> registrar_nacimiento_de_pareja ej_hoy ej_azar_hijo ej_arbol4 ''F1'' ''10000001'' ''10000002''
       = (Inl ValueError_cedula_ya_existe, ej_arbol4)"
proof -
  have a: "obtener ej_familia_unida ''10000001'' = Some ej_ana_unida"
    by (simp add: obtener_def ej_familia_unida_def)
  have b: "obtener ej_familia_unida ''10000002'' = Some ej_luis_unido"
    by (simp add: obtener_def ej_familia_unida_def)
  have c: "cedula ej_luis_unido |\<in>| parejas ej_ana_unida"
    by (simp add: ej_luis_unido_def ej_ana_unida_def ej_luis1_def ej_luis_def persona_nueva_def)
  have d: "str_int (az_numero ej_azar_hijo) \<in> set (claves ej_familia_unida)"
    by (simp add: ej_azar_hijo_def ej_str claves_def ej_familia_unida_def)
  have e: "es_azar_nacimiento ej_azar_hijo"
    by (simp add: es_azar_nacimiento_def ej_azar_hijo_def NOMBRES_def es_muestra_def AFINIDADES_def)
  show ?thesis
    using nacimiento_cedula_duplicada [OF ej4 a b c d, of ej_hoy] ej4 a b c d e by simp
qed



section \<open>Marriage\<close>









section \<open>Guardian reassignment\<close>

lemma obtener_sin_historial:
  "obtener (sin_historial fam) c = map_option borrar_historial (obtener fam c)"
  by (simp add: obtener_def sin_historial_def map_of_map)

lemma todas_sin_historial:
  "todas_personas (sin_historial fam) = map borrar_historial (todas_personas fam)"
  by (simp add: todas_personas_def sin_historial_def comp_def case_prod_unfold)

lemma borrar_simps [simp]:
  "vivo (borrar_historial p) = vivo p"
  "cedula (borrar_historial p) = cedula p"
  "padres (borrar_historial p) = padres p"
  "hijos (borrar_historial p) = hijos p"
  "nombre (borrar_historial p) = nombre p"
  "edad hoy (borrar_historial p) r = edad hoy p r"
  by (simp_all add: borrar_historial_def vivo_def edad_def split: option.splits)

lemma candidatos_de_sin_historial:
  "candidatos_de orden (sin_historial fam) (borrar_historial pp)
     = map borrar_historial (candidatos_de orden fam pp)"
proof -
  have "concat (map (\<lambda>c. case map_option borrar_historial (obtener fam c) of None \<Rightarrow> []
                        | Some ab \<Rightarrow> if vivo ab then [ab] else []) xs)
        = map borrar_historial (concat (map (\<lambda>c. case obtener fam c of None \<Rightarrow> []
                        | Some ab \<Rightarrow> if vivo ab then [ab] else []) xs))" for xs
    by (induction xs) (auto split: option.splits)
  then show ?thesis
    by (simp add: candidatos_de_def todas_sin_historial obtener_sin_historial filter_map comp_def)
qed

lemma candidatos_sin_historial:
  "candidatos orden (sin_historial fam) (map (map_option borrar_historial) ps)
     = map borrar_historial (candidatos orden fam ps)"
  by (induction ps) (auto simp: candidatos_def candidatos_de_sin_historial split: option.splits)

lemma maximo_por_map:
  "(\<And>x. key (f x) = key x) \<Longrightarrow> maximo_por key (f c) (map f cs) = f (maximo_por key c cs)"
  by (induction cs arbitrary: c) auto

lemma tutor_de_sin_historial:
  "tutor_de hoy orden fs (sin_historial fam) (borrar_historial p)
     = map_option borrar_historial (tutor_de hoy orden fs fam p)"
proof -
  let ?ps = "map (obtener fam) (orden (padres p))"
  have a: "map (obtener (sin_historial fam)) (orden (padres p)) = map (map_option borrar_historial) ?ps"
    by (simp add: obtener_sin_historial)
  have b: "list_all (\<lambda>pp. case pp of None \<Rightarrow> False | Some pp' \<Rightarrow> \<not> vivo pp') (map (map_option borrar_historial) ?ps)
           = list_all (\<lambda>pp. case pp of None \<Rightarrow> False | Some pp' \<Rightarrow> \<not> vivo pp') ?ps"
    by (simp add: list_all_iff split: option.splits)
  have c: "candidatos orden (sin_historial fam) (map (obtener (sin_historial fam)) (orden (padres p)))
           = map borrar_historial (candidatos orden fam ?ps)"
    by (simp only: a candidatos_sin_historial)
  have d: "list_all (\<lambda>pp. case pp of None \<Rightarrow> False | Some pp' \<Rightarrow> \<not> vivo pp')
             (map (obtener (sin_historial fam)) (orden (padres p)))
           = list_all (\<lambda>pp. case pp of None \<Rightarrow> False | Some pp' \<Rightarrow> \<not> vivo pp') ?ps"
    by (simp only: a b)
  show ?thesis
    by (cases "candidatos orden fam ?ps")
       (simp_all add: tutor_de_def Let_def c d maximo_por_map)
qed


lemma sin_historial_mutar_evento:
  "sin_historial (mutar k (registrar_evento hoy d r) fam) = sin_historial fam"
proof -
  have "map (\<lambda>(k, p). (k, borrar_historial p))
          (map (\<lambda>(k', p). if k' = k then (k', registrar_evento hoy d r p) else (k', p)) ms)
        = map (\<lambda>(k, p). (k, borrar_historial p)) ms" for ms
    by (induction ms) (auto simp: borrar_historial_def registrar_evento_def)
  then show ?thesis by (simp add: sin_historial_def mutar_def)
qed

lemma tutor_de_actual:
  assumes "sin_historial fam = sin_historial fam0" and "obtener fam k = Some p"
  shows "(case tutor_de hoy orden fs fam p of
            None \<Rightarrow> p
          | Some t \<Rightarrow> registrar_evento hoy (''Tutor legal asignado: '' @ nombre t) None p)
         = anotar hoy orden fs fam0 p"
proof -
  have "tutor_de hoy orden fs (sin_historial fam0) (borrar_historial p)
        = map_option borrar_historial (tutor_de hoy orden fs fam p)"
    using tutor_de_sin_historial [of hoy orden fs fam p] assms(1) by simp
  then show ?thesis
    by (cases "tutor_de hoy orden fs fam p") (simp_all add: anotar_def)
qed

lemma tutoria_bucle_obtener:
  assumes "distinct ks" and "sin_historial fam = sin_historial fam0"
  shows "sin_historial (tutoria_bucle hoy orden fs ks fam) = sin_historial fam0
       \<and> obtener (tutoria_bucle hoy orden fs ks fam) c
           = (if c \<in> set ks then map_option (anotar hoy orden fs fam0) (obtener fam c)
              else obtener fam c)"
  using assms
proof (induction ks arbitrary: fam)
  case Nil
  then show ?case by simp
next
  case (Cons k ks)
  show ?case
  proof (cases "obtener fam k")
    case None
    with Cons show ?thesis by auto
  next
    case (Some p)
    let ?t = "tutor_de hoy orden fs fam p"
    show ?thesis
    proof (cases ?t)
      case None
      then have "anotar hoy orden fs fam0 p = p"
        using tutor_de_actual [OF Cons.prems(2) Some, of hoy orden fs] by simp
      with Cons Some None show ?thesis by auto
    next
      case (Some t)
      let ?f = "mutar k (registrar_evento hoy (''Tutor legal asignado: '' @ nombre t) None) fam"
      have e: "anotar hoy orden fs fam0 p
               = registrar_evento hoy (''Tutor legal asignado: '' @ nombre t) None p"
        using tutor_de_actual [OF Cons.prems(2) \<open>obtener fam k = Some p\<close>, of hoy orden fs] Some
        by simp
      have s: "sin_historial ?f = sin_historial fam0"
        using Cons.prems(2) by (simp add: sin_historial_mutar_evento)
      have d: "distinct ks" and nk: "k \<notin> set ks" using Cons.prems(1) by auto
      from Cons.IH [OF d s] \<open>obtener fam k = Some p\<close> Some e nk show ?thesis
        by (auto simp: obtener_mutar)
    qed
  qed
qed

lemma maximo_por_max:
  "maximo_por key c cs \<in> set (c # cs) \<and> (\<forall>x \<in> set (c # cs). key x \<le> key (maximo_por key c cs))"
proof (induction cs arbitrary: c)
  case Nil
  then show ?case by simp
next
  case (Cons a cs)
  from Cons [of "if key c < key a then a else c"] show ?case
    by (auto split: if_splits)
qed


lemma familia_ok_cedula:
  "familia_ok fam \<Longrightarrow> obtener fam c = Some p \<Longrightarrow> cedula p = c"
  by (auto simp: familia_ok_def obtener_def dest: map_of_SomeD)

lemma familia_ok_miembro:
  "familia_ok fam \<Longrightarrow> q \<in> set (todas_personas fam) \<Longrightarrow> obtener fam (cedula q) = Some q"
  by (auto simp: familia_ok_def obtener_def todas_personas_def claves_def)

lemma obtener_miembro: "obtener fam c = Some q \<Longrightarrow> q \<in> set (todas_personas fam)"
  by (auto simp: obtener_def todas_personas_def dest!: map_of_SomeD intro: image_eqI [where x = "(c, q)"])

lemma es_orden_set: "es_orden orden \<Longrightarrow> set (orden S) = fset S"
  by (metis es_orden_def fset_of_list.rep_eq)

lemma set_candidatos_de_crudo:
  assumes "es_orden orden"
  shows "set (candidatos_de orden fam pp)
         = {q \<in> set (todas_personas fam). cedula q \<noteq> cedula pp \<and> vivo q \<and> padres q |\<inter>| padres pp \<noteq> {||}}
           \<union> {q. vivo q \<and> (\<exists>g. g |\<in>| padres pp \<and> obtener fam g = Some q)}"
proof -
  have "set (concat (map (\<lambda>g. case obtener fam g of None \<Rightarrow> []
                              | Some ab \<Rightarrow> if vivo ab then [ab] else []) xs))
        = {q. vivo q \<and> (\<exists>g. g \<in> set xs \<and> obtener fam g = Some q)}" for xs
    by (induction xs) (auto split: option.splits)
  then have C: "set (concat (map (\<lambda>g. case obtener fam g of None \<Rightarrow> []
                              | Some ab \<Rightarrow> if vivo ab then [ab] else []) (orden (padres pp))))
        = {q. vivo q \<and> (\<exists>g. g |\<in>| padres pp \<and> obtener fam g = Some q)}"
    by (simp only: es_orden_set [OF assms])
  have F: "set (filter (\<lambda>q. \<not> (cedula q = cedula pp \<or> \<not> vivo q)
                 \<and> padres q \<noteq> {||} \<and> padres q |\<inter>| padres pp \<noteq> {||}) (todas_personas fam))
        = {q \<in> set (todas_personas fam). cedula q \<noteq> cedula pp \<and> vivo q \<and> padres q |\<inter>| padres pp \<noteq> {||}}"
    by auto
  show ?thesis
    unfolding candidatos_de_def set_append C F ..
qed

lemma set_candidatos_de:
  assumes "familia_ok fam" and "es_orden orden" and "obtener fam c = Some pp" and "\<not> vivo pp"
  shows "set (candidatos_de orden fam pp)
         = {q. q \<in> set (todas_personas fam) \<and> vivo q
               \<and> ((q \<noteq> pp \<and> padres q |\<inter>| padres pp \<noteq> {||})
                  \<or> fBex (padres pp) (\<lambda>g. obtener fam g = Some q))}"
proof -
  have neq: "cedula q \<noteq> cedula pp \<longleftrightarrow> q \<noteq> pp" if "q \<in> set (todas_personas fam)" for q
    using familia_ok_miembro [OF assms(1) that] familia_ok_cedula [OF assms(1,3)] assms(3)
    by (metis option.inject)
  show ?thesis
  proof (intro set_eqI iffI)
    fix q
    assume "q \<in> set (candidatos_de orden fam pp)"
    then consider "q \<in> set (todas_personas fam)" "cedula q \<noteq> cedula pp" "vivo q"
        "padres q |\<inter>| padres pp \<noteq> {||}"
      | g where "vivo q" "g |\<in>| padres pp" "obtener fam g = Some q"
      unfolding set_candidatos_de_crudo [OF assms(2)] by blast
    then show "q \<in> {q. q \<in> set (todas_personas fam) \<and> vivo q
               \<and> ((q \<noteq> pp \<and> padres q |\<inter>| padres pp \<noteq> {||})
                  \<or> fBex (padres pp) (\<lambda>g. obtener fam g = Some q))}"
    proof cases
      case 1
      then show ?thesis using neq [OF 1(1)] by simp
    next
      case 2
      then show ?thesis using obtener_miembro [OF 2(3)] by blast
    qed
  next
    fix q
    assume "q \<in> {q. q \<in> set (todas_personas fam) \<and> vivo q
               \<and> ((q \<noteq> pp \<and> padres q |\<inter>| padres pp \<noteq> {||})
                  \<or> fBex (padres pp) (\<lambda>g. obtener fam g = Some q))}"
    then have m: "q \<in> set (todas_personas fam)" and v: "vivo q"
      and o: "(q \<noteq> pp \<and> padres q |\<inter>| padres pp \<noteq> {||}) \<or> (\<exists>g. g |\<in>| padres pp \<and> obtener fam g = Some q)"
      by auto
    show "q \<in> set (candidatos_de orden fam pp)"
      unfolding set_candidatos_de_crudo [OF assms(2)]
      using m v o neq [OF m] by blast
  qed
qed

lemma set_candidatos_crudo:
  "set (candidatos orden fam (map (obtener fam) xs))
   = (\<Union>c \<in> set xs. case obtener fam c of None \<Rightarrow> {} | Some pp \<Rightarrow> set (candidatos_de orden fam pp))"
  by (induction xs) (simp_all add: candidatos_def split: option.splits)

lemma set_candidatos:
  assumes "familia_ok fam" and "es_orden orden" and "todos_fallecidos fam p"
  shows "set (candidatos orden fam (map (obtener fam) (orden (padres p)))) = {q. es_candidato fam p q}"
proof (intro set_eqI iffI)
  fix q
  assume "q \<in> set (candidatos orden fam (map (obtener fam) (orden (padres p))))"
  then obtain c where c: "c |\<in>| padres p"
      and q: "q \<in> (case obtener fam c of None \<Rightarrow> {} | Some pp \<Rightarrow> set (candidatos_de orden fam pp))"
    unfolding set_candidatos_crudo es_orden_set [OF assms(2)] by blast
  from assms(3) c obtain pp where pp: "obtener fam c = Some pp" "\<not> vivo pp"
    unfolding todos_fallecidos_def by (cases "obtener fam c") auto
  from q pp have "q \<in> set (candidatos_de orden fam pp)" by simp
  then have r: "q \<in> set (todas_personas fam)" "vivo q"
      "(q \<noteq> pp \<and> padres q |\<inter>| padres pp \<noteq> {||}) \<or> fBex (padres pp) (\<lambda>g. obtener fam g = Some q)"
    unfolding set_candidatos_de [OF assms(1,2) pp] by simp_all
  have "fBex (padres p) (\<lambda>c. case obtener fam c of
            None \<Rightarrow> False
          | Some pp \<Rightarrow> \<not> vivo pp
              \<and> ((q \<noteq> pp \<and> padres q |\<inter>| padres pp \<noteq> {||})
                 \<or> fBex (padres pp) (\<lambda>g. obtener fam g = Some q)))"
    by (rule fBexI [OF _ c]) (simp add: pp r(3))
  with r(1,2) show "q \<in> {q. es_candidato fam p q}"
    by (simp add: es_candidato_def)
next
  fix q
  assume "q \<in> {q. es_candidato fam p q}"
  then have r: "q \<in> set (todas_personas fam)" "vivo q"
    and "fBex (padres p) (\<lambda>c. case obtener fam c of
            None \<Rightarrow> False
          | Some pp \<Rightarrow> \<not> vivo pp
              \<and> ((q \<noteq> pp \<and> padres q |\<inter>| padres pp \<noteq> {||})
                 \<or> fBex (padres pp) (\<lambda>g. obtener fam g = Some q)))"
    by (simp_all add: es_candidato_def)
  then obtain c where c: "c |\<in>| padres p"
    and k: "case obtener fam c of
            None \<Rightarrow> False
          | Some pp \<Rightarrow> \<not> vivo pp
              \<and> ((q \<noteq> pp \<and> padres q |\<inter>| padres pp \<noteq> {||})
                 \<or> fBex (padres pp) (\<lambda>g. obtener fam g = Some q))"
    by blast
  from k obtain pp where pp: "obtener fam c = Some pp" "\<not> vivo pp"
    and o: "(q \<noteq> pp \<and> padres q |\<inter>| padres pp \<noteq> {||}) \<or> fBex (padres pp) (\<lambda>g. obtener fam g = Some q)"
    by (cases "obtener fam c") auto
  have "q \<in> set (candidatos_de orden fam pp)"
    unfolding set_candidatos_de [OF assms(1,2) pp] using r o by simp
  then have "q \<in> (case obtener fam c of None \<Rightarrow> {} | Some pp \<Rightarrow> set (candidatos_de orden fam pp))"
    by (simp add: pp)
  with c show "q \<in> set (candidatos orden fam (map (obtener fam) (orden (padres p))))"
    unfolding set_candidatos_crudo es_orden_set [OF assms(2)] by blast
qed

lemma tutor_de_huerfano:
  assumes "familia_ok fam" and "es_orden orden"
    and "vivo p" and "edad hoy p (Some fs) < 18" and "padres p \<noteq> {||}"
    and "todos_fallecidos fam p" and "es_candidato fam p q"
  shows "\<exists>t. tutor_de hoy orden fs fam p = Some t \<and> es_candidato fam p t
             \<and> (\<forall>q. es_candidato fam p q \<longrightarrow> edad hoy q (Some fs) \<le> edad hoy t (Some fs))"
proof -
  let ?ps = "map (obtener fam) (orden (padres p))"
  let ?cs = "candidatos orden fam ?ps"
  have sc: "set ?cs = {q. es_candidato fam p q}"
    by (rule set_candidatos [OF assms(1,2,6)])
  have ne: "?ps \<noteq> []"
    using assms(5) es_orden_set [OF assms(2), of "padres p"] by auto
  have al: "list_all (\<lambda>pp. case pp of None \<Rightarrow> False | Some pp' \<Rightarrow> \<not> vivo pp') ?ps"
    using assms(6) by (auto simp: list_all_iff todos_fallecidos_def es_orden_set [OF assms(2)])
  obtain c cs where cs: "?cs = c # cs"
    using sc assms(7) by (cases ?cs) auto
  let ?t = "maximo_por (\<lambda>r. edad hoy r (Some fs)) c cs"
  have "tutor_de hoy orden fs fam p = Some ?t"
    using assms(3,4) ne al cs by (simp add: tutor_de_def Let_def)
  moreover have "es_candidato fam p ?t"
    using maximo_por_max [of "\<lambda>r. edad hoy r (Some fs)" c cs] sc cs by auto
  moreover have "\<forall>q. es_candidato fam p q \<longrightarrow> edad hoy q (Some fs) \<le> edad hoy ?t (Some fs)"
    using maximo_por_max [of "\<lambda>r. edad hoy r (Some fs)" c cs] sc cs by auto
  ultimately show ?thesis by blast
qed

lemma tutor_de_no_resuelto:
  assumes "es_orden orden" and "c |\<in>| padres p" and "obtener fam c = None"
  shows "tutor_de hoy orden fs fam p = None"
proof -
  have "c \<in> set (orden (padres p))" using assms(1,2) by (simp add: es_orden_set)
  then have "\<not> list_all (\<lambda>pp. case pp of None \<Rightarrow> False | Some pp' \<Rightarrow> \<not> vivo pp')
                 (map (obtener fam) (orden (padres p)))"
    using assms(3) by (auto simp: list_all_iff intro!: bexI [of _ c])
  then show ?thesis by (simp add: tutor_de_def Let_def)
qed

lemmas ej_tutela_defs = ej_abuela_def ej_madre_def ej_tia_def ej_menor_def ej_menor_x_def
  ej_familia_tutela_def ej_familia_tutela_x_def persona_nueva_def

lemma es_orden_sorted: "es_orden sorted_list_of_fset"
proof -
  have "distinct (sorted_list_of_fset S)" for S :: "string fset"
    by (simp add: sorted_list_of_fset.rep_eq)
  then show ?thesis by (simp add: es_orden_def)
qed

lemma cx1: "vivo ej_menor_x \<and> edad ej_hoy ej_menor_x (Some ej_hoy) < 18 \<and> padres ej_menor_x \<noteq> {||}"
  by (simp add: ej_tutela_defs vivo_def edad_def anios_entre_def md_menor_def ej_hoy_def)

lemma cx2: "resueltos_fallecidos ej_familia_tutela_x ej_menor_x"
  by (simp add: resueltos_fallecidos_def obtener_def ej_tutela_defs vivo_def)

lemma cx3: "es_candidato ej_familia_tutela_x ej_menor_x ej_abuela"
  by (simp add: es_candidato_def todas_personas_def obtener_def ej_tutela_defs vivo_def)

lemma cx4: "reasignar_tutoria_menores ej_hoy sorted_list_of_fset ej_hoy ej_familia_tutela_x = ej_familia_tutela_x"
  by code_simp


text \<open>
  C5, as claimed: a living minor whose every resolved parent is deceased gets a guardian
  entry when a candidate exists.  It fails when a parent identifier does not resolve:
  Noa's parents are Rosa, a deceased member whose mother Marta lives, and an
  identifier that is no member's; the claim's condition holds, Marta is a candidate,
  and the pass leaves the family as it was.
\<close>

theorem tutor_no_asignado_counterexample:
  "obtener ej_familia_tutela_x ''20000003'' = Some ej_menor_x
   \<and> vivo ej_menor_x \<and> edad ej_hoy ej_menor_x (Some ej_hoy) < 18 \<and> padres ej_menor_x \<noteq> {||}
   \<and> resueltos_fallecidos ej_familia_tutela_x ej_menor_x
   \<and> es_candidato ej_familia_tutela_x ej_menor_x ej_abuela
   \<and> reasignar_tutoria_menores ej_hoy sorted_list_of_fset ej_hoy ej_familia_tutela_x
       = ej_familia_tutela_x"
  using cx1 cx2 cx3 cx4 by (simp add: obtener_def ej_familia_tutela_x_def)

text \<open>
  C5, amended.  In the guardian pass over a well-formed family, for every living member
  under 18 (at the simulated date) with a non-empty parent set of which every identifier
  resolves to a deceased member, if a candidate exists then the pass appends to the
  minor's history exactly one entry, \<open>Tutor legal asignado:\<close> followed by the name of a
  candidate whose age at the simulated date is the greatest among the candidates.  A
  member with a parent identifier that resolves to no member is left by the pass as it
  was, so a minor with such a parent gets no entry.  The pass keeps the members' keys and
  changes no set of parents or of children.
\<close>

theorem tutor_asignado:
  assumes "familia_ok fam" and "es_orden orden" and "obtener fam k = Some p"
  shows "(vivo p \<and> edad hoy p (Some fs) < 18 \<and> padres p \<noteq> {||} \<and> todos_fallecidos fam p
          \<and> (\<exists>q. es_candidato fam p q)
          \<longrightarrow> (\<exists>t. es_candidato fam p t
                 \<and> (\<forall>q. es_candidato fam p q \<longrightarrow> edad hoy q (Some fs) \<le> edad hoy t (Some fs))
                 \<and> obtener (reasignar_tutoria_menores hoy orden fs fam) k
                     = Some (p\<lparr>historial := historial p
                               @ [(anio hoy, ''Tutor legal asignado: '' @ nombre t)]\<rparr>)))
       \<and> ((\<exists>c. c |\<in>| padres p \<and> obtener fam c = None)
          \<longrightarrow> obtener (reasignar_tutoria_menores hoy orden fs fam) k = Some p)
       \<and> claves (reasignar_tutoria_menores hoy orden fs fam) = claves fam
       \<and> (\<forall>c. map_option padres (obtener (reasignar_tutoria_menores hoy orden fs fam) c)
                = map_option padres (obtener fam c))
       \<and> (\<forall>c. map_option hijos (obtener (reasignar_tutoria_menores hoy orden fs fam) c)
                = map_option hijos (obtener fam c))"
proof -
  let ?fam' = "reasignar_tutoria_menores hoy orden fs fam"
  have d: "distinct (claves fam)" using assms(1) by (simp add: familia_ok_def)
  note L = tutoria_bucle_obtener [OF d refl, of hoy orden fs fam, folded reasignar_tutoria_menores_def]
  have sh: "sin_historial ?fam' = sin_historial fam" using L by simp
  have ob: "obtener ?fam' k = Some (anotar hoy orden fs fam p)"
    using L [of k] assms(3) obtener_None_iff [of fam k] by (auto split: if_splits)
  have A: "\<exists>t. es_candidato fam p t
             \<and> (\<forall>q. es_candidato fam p q \<longrightarrow> edad hoy q (Some fs) \<le> edad hoy t (Some fs))
             \<and> obtener ?fam' k
                 = Some (p\<lparr>historial := historial p
                           @ [(anio hoy, ''Tutor legal asignado: '' @ nombre t)]\<rparr>)"
    if h: "vivo p" "edad hoy p (Some fs) < 18" "padres p \<noteq> {||}" "todos_fallecidos fam p"
      "es_candidato fam p q" for q
  proof -
    obtain t where t: "tutor_de hoy orden fs fam p = Some t" "es_candidato fam p t"
        "\<forall>q. es_candidato fam p q \<longrightarrow> edad hoy q (Some fs) \<le> edad hoy t (Some fs)"
      using tutor_de_huerfano [OF assms(1,2) h] by blast
    have an: "anotar hoy orden fs fam p
              = p\<lparr>historial := historial p @ [(anio hoy, ''Tutor legal asignado: '' @ nombre t)]\<rparr>"
      using t(1) by (simp add: anotar_def tutor_de_sin_historial registrar_evento_def)
    show ?thesis using t(2,3) ob an by auto
  qed
  have B: "obtener ?fam' k = Some p" if "c |\<in>| padres p" "obtener fam c = None" for c
  proof -
    have "tutor_de hoy orden fs fam p = None"
      by (rule tutor_de_no_resuelto [OF assms(2) that])
    then have "anotar hoy orden fs fam p = p"
      by (simp add: anotar_def tutor_de_sin_historial)
    with ob show ?thesis by simp
  qed
  have same: "map_option borrar_historial (obtener ?fam' c) = map_option borrar_historial (obtener fam c)" for c
    using sh obtener_sin_historial by metis
  have pa: "map_option padres (obtener ?fam' c) = map_option padres (obtener fam c)" for c
    using same [of c] by (cases "obtener ?fam' c"; cases "obtener fam c") (auto dest: arg_cong [where f = padres])
  have hi: "map_option hijos (obtener ?fam' c) = map_option hijos (obtener fam c)" for c
    using same [of c] by (cases "obtener ?fam' c"; cases "obtener fam c") (auto dest: arg_cong [where f = hijos])
  have cl: "claves ?fam' = claves fam"
    using arg_cong [OF sh, of claves]
    by (simp add: claves_def sin_historial_def comp_def case_prod_unfold)
  show ?thesis using A B pa hi cl by blast
qed


lemma wx_ok: "familia_ok ej_familia_tutela"
  by (simp add: familia_ok_def claves_def ej_tutela_defs)

lemma wx_menor: "obtener ej_familia_tutela ''20000003'' = Some ej_menor"
  by (simp add: obtener_def ej_familia_tutela_def)

lemma wx1: "vivo ej_menor \<and> edad ej_hoy ej_menor (Some ej_hoy) < 18 \<and> padres ej_menor \<noteq> {||}"
  by (simp add: ej_tutela_defs vivo_def edad_def anios_entre_def md_menor_def ej_hoy_def)

lemma wx2: "todos_fallecidos ej_familia_tutela ej_menor"
  by (simp add: todos_fallecidos_def obtener_def ej_tutela_defs vivo_def)

lemma wx3: "es_candidato ej_familia_tutela ej_menor ej_tia"
  by (simp add: es_candidato_def todas_personas_def obtener_def ej_tutela_defs vivo_def)

lemma cx_ok: "familia_ok ej_familia_tutela_x"
  by (simp add: familia_ok_def claves_def ej_tutela_defs)

lemma cx_menor: "obtener ej_familia_tutela_x ''20000003'' = Some ej_menor_x"
  by (simp add: obtener_def ej_familia_tutela_x_def)

lemma cx5: "''99999999'' |\<in>| padres ej_menor_x \<and> obtener ej_familia_tutela_x ''99999999'' = None"
  by (simp add: obtener_def ej_tutela_defs)

theorem tutor_asignado_witness:
  "familia_ok ej_familia_tutela \<and> es_orden sorted_list_of_fset
   \<and> obtener ej_familia_tutela ''20000003'' = Some ej_menor
   \<and> vivo ej_menor \<and> edad ej_hoy ej_menor (Some ej_hoy) < 18 \<and> padres ej_menor \<noteq> {||}
   \<and> todos_fallecidos ej_familia_tutela ej_menor
   \<and> es_candidato ej_familia_tutela ej_menor ej_tia
   \<and> (\<exists>t. es_candidato ej_familia_tutela ej_menor t
          \<and> (\<forall>q. es_candidato ej_familia_tutela ej_menor q
                 \<longrightarrow> edad ej_hoy q (Some ej_hoy) \<le> edad ej_hoy t (Some ej_hoy))
          \<and> obtener (reasignar_tutoria_menores ej_hoy sorted_list_of_fset ej_hoy ej_familia_tutela)
               ''20000003''
              = Some (ej_menor\<lparr>historial := historial ej_menor
                        @ [(anio ej_hoy, ''Tutor legal asignado: '' @ nombre t)]\<rparr>))
   \<and> obtener (reasignar_tutoria_menores ej_hoy sorted_list_of_fset ej_hoy ej_familia_tutela)
        ''20000003''
       = Some (ej_menor\<lparr>historial := [(2025, ''Tutor legal asignado: Marta'')]\<rparr>)
   \<and> familia_ok ej_familia_tutela_x
   \<and> obtener ej_familia_tutela_x ''20000003'' = Some ej_menor_x
   \<and> ''99999999'' |\<in>| padres ej_menor_x \<and> obtener ej_familia_tutela_x ''99999999'' = None
   \<and> obtener (reasignar_tutoria_menores ej_hoy sorted_list_of_fset ej_hoy ej_familia_tutela_x)
        ''20000003'' = Some ej_menor_x"
proof -
  have w4: "obtener (reasignar_tutoria_menores ej_hoy sorted_list_of_fset ej_hoy ej_familia_tutela)
              ''20000003''
            = Some (ej_menor\<lparr>historial := [(2025, ''Tutor legal asignado: Marta'')]\<rparr>)"
    by code_simp
  from wx1 have a: "vivo ej_menor" and b: "edad ej_hoy ej_menor (Some ej_hoy) < 18"
    and c: "padres ej_menor \<noteq> {||}"
    by simp_all
  note T1 = tutor_asignado [OF wx_ok es_orden_sorted wx_menor, of ej_hoy ej_hoy]
  note T2 = tutor_asignado [OF cx_ok es_orden_sorted cx_menor, of ej_hoy ej_hoy]
  have p1: "\<exists>t. es_candidato ej_familia_tutela ej_menor t
          \<and> (\<forall>q. es_candidato ej_familia_tutela ej_menor q
                 \<longrightarrow> edad ej_hoy q (Some ej_hoy) \<le> edad ej_hoy t (Some ej_hoy))
          \<and> obtener (reasignar_tutoria_menores ej_hoy sorted_list_of_fset ej_hoy ej_familia_tutela)
               ''20000003''
              = Some (ej_menor\<lparr>historial := historial ej_menor
                        @ [(anio ej_hoy, ''Tutor legal asignado: '' @ nombre t)]\<rparr>)"
    using T1 a b c wx2 wx3 by blast
  have p2: "obtener (reasignar_tutoria_menores ej_hoy sorted_list_of_fset ej_hoy ej_familia_tutela_x)
        ''20000003'' = Some ej_menor_x"
    using T2 cx5 by blast
  show ?thesis
    using p1 p2 wx_ok es_orden_sorted wx_menor a b c wx2 wx3 w4 cx_ok cx_menor cx5
    by blast
qed



section \<open>Living descendants\<close>

lemma sin_fin_paso:
  assumes "c \<in> sin_fin fam"
  shows "\<exists>pa c'. obtener fam c = Some pa \<and> c' |\<in>| hijos pa \<and> c' \<in> sin_fin fam"
proof -
  from assms obtain d where d: "(c, d) \<in> (hijo_de fam)\<^sup>*" "(d, d) \<in> (hijo_de fam)\<^sup>+"
    by (auto simp: sin_fin_def)
  then have "(c, d) \<in> (hijo_de fam)\<^sup>+"
    by (metis rtranclD)
  then obtain c' where c': "(c, c') \<in> hijo_de fam" "(c', d) \<in> (hijo_de fam)\<^sup>*"
    by (metis tranclD)
  then have "c' \<in> sin_fin fam" using d(2) by (auto simp: sin_fin_def)
  with c'(1) show ?thesis by (auto simp: hijo_de_def)
qed

lemma dv_bucle_sin_fin:
  assumes "es_orden orden"
  shows "\<exists>c \<in> set stack. c \<in> sin_fin fam \<Longrightarrow> dv_bucle n orden fam stack res = None"
proof (induction n arbitrary: stack res)
  case 0
  then show ?case by (cases stack) auto
next
  case (Suc n)
  then obtain top rest where st: "stack = top # rest" by (cases stack) auto
  show ?case
  proof (cases "obtener fam top")
    case None
    then have "top \<notin> sin_fin fam" using sin_fin_paso [of top fam] by auto
    with Suc.prems st have "\<exists>c \<in> set rest. c \<in> sin_fin fam" by auto
    from Suc.IH [OF this] None st show ?thesis by simp
  next
    case (Some p)
    have "\<exists>c \<in> set (rev (orden (hijos p)) @ rest). c \<in> sin_fin fam"
    proof (cases "top \<in> sin_fin fam")
      case True
      from sin_fin_paso [OF this] Some obtain c' where "c' |\<in>| hijos p" "c' \<in> sin_fin fam"
        by auto
      then show ?thesis using es_orden_set [OF assms, of "hijos p"] by auto
    next
      case False
      with Suc.prems st show ?thesis by auto
    qed
    from Suc.IH [OF this] Some st show ?thesis by simp
  qed
qed

lemma descendientes_ciclo:
  assumes "es_orden orden" and "ciclo_alcanzable fam x"
  shows "descendientes_vivos n orden fam x = None"
proof -
  from assms(2) obtain c where c: "(x, c) \<in> (hijo_de fam)\<^sup>+" "(c, c) \<in> (hijo_de fam)\<^sup>+"
    by (auto simp: ciclo_alcanzable_def)
  then have "x \<in> sin_fin fam" by (auto simp: sin_fin_def)
  from sin_fin_paso [OF this] obtain px c' where
    p: "obtener fam x = Some px" "c' |\<in>| hijos px" "c' \<in> sin_fin fam" by blast
  then have "\<exists>c \<in> set (rev (orden (hijos px))). c \<in> sin_fin fam"
    using es_orden_set [OF assms(1), of "hijos px"] by auto
  from dv_bucle_sin_fin [OF assms(1) this] p(1) show ?thesis
    by (simp add: descendientes_vivos_def)
qed


lemma agota_Nil: "agota orden fam []"
  unfolding agota_def by (intro exI [of _ 0] exI [of _ "[]"]) simp

lemma agota_append:
  assumes "agota orden fam xs" and "agota orden fam ys"
  shows "agota orden fam (xs @ ys)"
proof -
  from assms(1) obtain m1 o1 where
    1: "\<And>n stack res. dv_bucle (n + m1) orden fam (xs @ stack) res = dv_bucle n orden fam stack (res @ o1)"
    and s1: "set o1 = (\<Union>c \<in> set xs. vivos_desde fam c)"
    unfolding agota_def by blast
  from assms(2) obtain m2 o2 where
    2: "\<And>n stack res. dv_bucle (n + m2) orden fam (ys @ stack) res = dv_bucle n orden fam stack (res @ o2)"
    and s2: "set o2 = (\<Union>c \<in> set ys. vivos_desde fam c)"
    unfolding agota_def by blast
  have "dv_bucle (n + (m2 + m1)) orden fam ((xs @ ys) @ stack) res
        = dv_bucle n orden fam stack (res @ (o1 @ o2))" for n stack res
    using 1 [of "n + m2" "ys @ stack" res] 2 [of n stack "res @ o1"]
    by (simp add: add.assoc)
  moreover have "set (o1 @ o2) = (\<Union>c \<in> set (xs @ ys). vivos_desde fam c)"
    using s1 s2 by auto
  ultimately show ?thesis unfolding agota_def by blast
qed

lemma agota_lista:
  assumes "\<And>c. c \<in> set cs \<Longrightarrow> agota orden fam [c]"
  shows "agota orden fam cs"
  using assms
proof (induction cs)
  case Nil
  show ?case by (rule agota_Nil)
next
  case (Cons c cs)
  have "agota orden fam ([c] @ cs)"
    by (rule agota_append) (use Cons in auto)
  then show ?case by simp
qed

lemma vivos_desde_no_resuelto: "obtener fam c = None \<Longrightarrow> vivos_desde fam c = {}"
proof -
  assume n: "obtener fam c = None"
  have "d = c" if "(c, d) \<in> (hijo_de fam)\<^sup>*" for d
    using that n by (induction rule: converse_rtrancl_induct) (auto simp: hijo_de_def)
  then have "obtener fam d = None" if "(c, d) \<in> (hijo_de fam)\<^sup>*" for d
    using that n by blast
  then show ?thesis by (fastforce simp: vivos_desde_def)
qed

lemma vivos_desde_resuelto:
  assumes "obtener fam c = Some p"
  shows "vivos_desde fam c = (if vivo p then {p} else {}) \<union> (\<Union>c' \<in> fset (hijos p). vivos_desde fam c')"
proof (intro set_eqI iffI)
  fix q
  assume "q \<in> vivos_desde fam c"
  then obtain d where d: "(c, d) \<in> (hijo_de fam)\<^sup>*" "obtener fam d = Some q" "vivo q"
    by (auto simp: vivos_desde_def)
  from d(1) show "q \<in> (if vivo p then {p} else {}) \<union> (\<Union>c' \<in> fset (hijos p). vivos_desde fam c')"
  proof (cases rule: converse_rtranclE)
    case base
    with d assms show ?thesis by auto
  next
    case (step c')
    with assms have "c' |\<in>| hijos p" by (auto simp: hijo_de_def)
    moreover have "q \<in> vivos_desde fam c'" using step(2) d(2,3) by (auto simp: vivos_desde_def)
    ultimately show ?thesis by auto
  qed
next
  fix q
  assume "q \<in> (if vivo p then {p} else {}) \<union> (\<Union>c' \<in> fset (hijos p). vivos_desde fam c')"
  then consider "vivo p" "q = p" | c' where "c' |\<in>| hijos p" "q \<in> vivos_desde fam c'"
    by (auto split: if_splits)
  then show "q \<in> vivos_desde fam c"
  proof cases
    case 1
    with assms show ?thesis by (auto simp: vivos_desde_def)
  next
    case 2
    then obtain d where d: "(c', d) \<in> (hijo_de fam)\<^sup>*" "obtener fam d = Some q" "vivo q"
      by (auto simp: vivos_desde_def)
    have "(c, c') \<in> hijo_de fam" using 2(1) assms by (auto simp: hijo_de_def)
    from this d(1) have "(c, d) \<in> (hijo_de fam)\<^sup>*" by (rule converse_rtrancl_into_rtrancl)
    with d(2,3) show ?thesis by (auto simp: vivos_desde_def)
  qed
qed

lemma agota_uno:
  assumes "es_orden orden"
    and "\<And>p c'. obtener fam c = Some p \<Longrightarrow> c' |\<in>| hijos p \<Longrightarrow> agota orden fam [c']"
  shows "agota orden fam [c]"
proof (cases "obtener fam c")
  case None
  have "dv_bucle (n + 1) orden fam ([c] @ stack) res = dv_bucle n orden fam stack (res @ [])"
    for n stack res
    using None by simp
  moreover have "set [] = (\<Union>c \<in> set [c]. vivos_desde fam c)"
    using vivos_desde_no_resuelto [OF None] by simp
  ultimately show ?thesis unfolding agota_def by blast
next
  case (Some p)
  have "agota orden fam (rev (orden (hijos p)))"
    by (rule agota_lista) (use assms(2) [OF Some] es_orden_set [OF assms(1), of "hijos p"] in auto)
  then obtain m out where
    1: "\<And>n stack res. dv_bucle (n + m) orden fam (rev (orden (hijos p)) @ stack) res
                        = dv_bucle n orden fam stack (res @ out)"
    and s: "set out = (\<Union>c \<in> set (rev (orden (hijos p))). vivos_desde fam c)"
    unfolding agota_def by blast
  let ?o = "(if vivo p then [p] else []) @ out"
  have "dv_bucle (n + Suc m) orden fam ([c] @ stack) res = dv_bucle n orden fam stack (res @ ?o)"
    for n stack res
    using Some 1 [of n stack "if vivo p then res @ [p] else res"] by simp
  moreover have "set ?o = (\<Union>c \<in> set [c]. vivos_desde fam c)"
    using s vivos_desde_resuelto [OF Some] es_orden_set [OF assms(1), of "hijos p"] by auto
  ultimately show ?thesis unfolding agota_def by blast
qed


lemma finite_hijo_de: "finite (hijo_de fam)"
proof -
  have "hijo_de fam \<subseteq> (\<Union>(a, pa) \<in> set (miembros fam). {a} \<times> fset (hijos pa))"
    by (auto simp: hijo_de_def obtener_def dest!: map_of_SomeD)
  moreover have "finite (\<Union>(a, pa) \<in> set (miembros fam). {a} \<times> fset (hijos pa))"
    by auto
  ultimately show ?thesis by (rule finite_subset)
qed

lemma agota_descendiente:
  assumes "es_orden orden" and "\<not> ciclo_alcanzable fam x" and "(x, c) \<in> (hijo_de fam)\<^sup>+"
  shows "agota orden fam [c]"
proof -
  let ?E = "hijo_de fam"
  let ?D = "{c. (x, c) \<in> ?E\<^sup>+}"
  let ?S = "?E \<inter> (?D \<times> UNIV)"
  have fin: "finite ?S" using finite_hijo_de by auto
  have acy: "acyclic ?S"
  proof (rule acyclicI, intro allI notI)
    fix d
    assume dd: "(d, d) \<in> ?S\<^sup>+"
    then have "(d, d) \<in> ?E\<^sup>+" by (rule trancl_mono) auto
    moreover from dd have "d \<in> ?D" by (metis (no_types, lifting) IntD2 SigmaD1 tranclD)
    ultimately show False using assms(2) by (auto simp: ciclo_alcanzable_def)
  qed
  have wf: "wf (?S\<inverse>)" by (rule finite_acyclic_wf_converse [OF fin acy])
  have "c \<in> ?D \<longrightarrow> agota orden fam [c]"
  proof (induction c rule: wf_induct_rule [OF wf])
    case (1 c)
    show ?case
    proof
      assume cD: "c \<in> ?D"
      show "agota orden fam [c]"
      proof (rule agota_uno [OF assms(1)])
        fix p c'
        assume "obtener fam c = Some p" "c' |\<in>| hijos p"
        then have e: "(c, c') \<in> ?E" by (auto simp: hijo_de_def)
        with cD have "(c', c) \<in> ?S\<inverse>" and "c' \<in> ?D" by auto
        with 1 show "agota orden fam [c']" by blast
      qed
    qed
  qed
  with assms(3) show ?thesis by simp
qed

lemma descendientes_sin_ciclo:
  assumes "es_orden orden" and "\<not> ciclo_alcanzable fam x"
  shows "\<exists>m res. (\<forall>n. descendientes_vivos (n + m) orden fam x = Some res)
                \<and> set res = descendientes_vivos_de fam x"
proof (cases "obtener fam x")
  case None
  have "descendientes_vivos_de fam x = {}"
  proof -
    have "\<not> (x, d) \<in> (hijo_de fam)\<^sup>+" for d
      using None by (auto simp: hijo_de_def dest!: tranclD)
    then show ?thesis by (simp add: descendientes_vivos_de_def)
  qed
  with None show ?thesis by (simp add: descendientes_vivos_def)
next
  case (Some px)
  have "agota orden fam (rev (orden (hijos px)))"
  proof (rule agota_lista)
    fix c
    assume "c \<in> set (rev (orden (hijos px)))"
    then have "(x, c) \<in> hijo_de fam"
      using Some es_orden_set [OF assms(1), of "hijos px"] by (auto simp: hijo_de_def)
    then show "agota orden fam [c]"
      by (intro agota_descendiente [OF assms]) auto
  qed
  then obtain m out where
    1: "\<And>n stack res. dv_bucle (n + m) orden fam (rev (orden (hijos px)) @ stack) res
                        = dv_bucle n orden fam stack (res @ out)"
    and s: "set out = (\<Union>c \<in> set (rev (orden (hijos px))). vivos_desde fam c)"
    unfolding agota_def by blast
  have a: "descendientes_vivos (n + m) orden fam x = Some out" for n
    using 1 [of n "[]" "[]"] Some by (simp add: descendientes_vivos_def)
  have "descendientes_vivos_de fam x = (\<Union>c \<in> fset (hijos px). vivos_desde fam c)"
  proof (intro set_eqI iffI)
    fix q
    assume "q \<in> descendientes_vivos_de fam x"
    then obtain d where d: "(x, d) \<in> (hijo_de fam)\<^sup>+" "obtener fam d = Some q" "vivo q"
      by (auto simp: descendientes_vivos_de_def)
    from d(1) obtain c where c: "(x, c) \<in> hijo_de fam" "(c, d) \<in> (hijo_de fam)\<^sup>*"
      by (metis tranclD)
    then have "c |\<in>| hijos px" using Some by (auto simp: hijo_de_def)
    moreover have "q \<in> vivos_desde fam c" using c(2) d(2,3) by (auto simp: vivos_desde_def)
    ultimately show "q \<in> (\<Union>c \<in> fset (hijos px). vivos_desde fam c)" by auto
  next
    fix q
    assume "q \<in> (\<Union>c \<in> fset (hijos px). vivos_desde fam c)"
    then obtain c d where c: "c |\<in>| hijos px" "(c, d) \<in> (hijo_de fam)\<^sup>*"
        "obtener fam d = Some q" "vivo q"
      by (auto simp: vivos_desde_def)
    have "(x, c) \<in> hijo_de fam" using c(1) Some by (auto simp: hijo_de_def)
    from this c(2) have "(x, d) \<in> (hijo_de fam)\<^sup>+" by (rule rtrancl_into_trancl2)
    with c(3,4) show "q \<in> descendientes_vivos_de fam x"
      by (auto simp: descendientes_vivos_de_def)
  qed
  with s es_orden_set [OF assms(1), of "hijos px"] have "set out = descendientes_vivos_de fam x"
    by simp
  with a show ?thesis by blast
qed

text \<open>
  C3.  When no cycle of child links is reachable from \<open>x\<close>, the traversal terminates:
  some number of iterations empties the stack, any greater number gives the same list,
  and the persons of the list are exactly the living members reached from \<open>x\<close> by one or
  more child links.  When such a cycle is reachable, no number of iterations empties the
  stack: the traversal does not terminate.  Both hold for every iteration order of the
  sets of children.
\<close>

theorem descendientes_vivos_terminacion:
  assumes "es_orden orden"
  shows "(\<not> ciclo_alcanzable fam x \<longrightarrow>
            (\<exists>m res. (\<forall>n. descendientes_vivos (n + m) orden fam x = Some res)
                     \<and> set res = descendientes_vivos_de fam x))
       \<and> (ciclo_alcanzable fam x \<longrightarrow> (\<forall>n. descendientes_vivos n orden fam x = None))"
  using descendientes_sin_ciclo [OF assms] descendientes_ciclo [OF assms] by blast


lemma sin_ciclo_por_rango:
  assumes "\<And>a b. (a, b) \<in> hijo_de fam \<Longrightarrow> f a < (f b :: nat)"
  shows "\<not> ciclo_alcanzable fam x"
proof -
  have "f a < f b" if "(a, b) \<in> (hijo_de fam)\<^sup>+" for a b
    using that by (induction rule: trancl_induct) (auto dest: assms intro: less_trans)
  then show ?thesis by (fastforce simp: ciclo_alcanzable_def)
qed

lemma ej_linaje_sin_ciclo: "\<not> ciclo_alcanzable ej_familia_linaje ''20000001''"
proof (rule sin_ciclo_por_rango [where f = ej_rango])
  fix a b
  assume "(a, b) \<in> hijo_de ej_familia_linaje"
  then show "ej_rango a < ej_rango b"
    by (auto simp: hijo_de_def obtener_def ej_familia_linaje_def ej_rango_def ej_tutela_defs
          split: if_splits)
qed

lemma ej_ciclo: "ciclo_alcanzable ej_familia_ciclo ''20000001''"
proof -
  have a: "(''20000001'', ''20000002'') \<in> hijo_de ej_familia_ciclo"
    and b: "(''20000002'', ''20000003'') \<in> hijo_de ej_familia_ciclo"
    and c: "(''20000003'', ''20000001'') \<in> hijo_de ej_familia_ciclo"
    by (simp_all add: hijo_de_def obtener_def ej_familia_ciclo_def ej_tutela_defs)
  have "(''20000001'', ''20000001'') \<in> (hijo_de ej_familia_ciclo)\<^sup>+"
    using a b c by (meson trancl.simps)
  then show ?thesis by (auto simp: ciclo_alcanzable_def)
qed

lemma ej_linaje_resultado:
  "descendientes_vivos 4 sorted_list_of_fset ej_familia_linaje ''20000001'' = Some [ej_tia, ej_menor]"
  by code_simp

theorem descendientes_vivos_terminacion_witness:
  "es_orden sorted_list_of_fset
   \<and> \<not> ciclo_alcanzable ej_familia_linaje ''20000001''
   \<and> (\<exists>m res. (\<forall>n. descendientes_vivos (n + m) sorted_list_of_fset ej_familia_linaje ''20000001''
                      = Some res)
              \<and> set res = descendientes_vivos_de ej_familia_linaje ''20000001'')
   \<and> descendientes_vivos 4 sorted_list_of_fset ej_familia_linaje ''20000001''
       = Some [ej_tia, ej_menor]
   \<and> ciclo_alcanzable ej_familia_ciclo ''20000001''
   \<and> (\<forall>n. descendientes_vivos n sorted_list_of_fset ej_familia_ciclo ''20000001'' = None)"
  using descendientes_vivos_terminacion [OF es_orden_sorted, of ej_familia_linaje "''20000001''"]
    descendientes_vivos_terminacion [OF es_orden_sorted, of ej_familia_ciclo "''20000001''"]
    es_orden_sorted ej_linaje_sin_ciclo ej_ciclo ej_linaje_resultado
  by blast



section \<open>Partner edges\<close>


lemma neutra_simps [simp]:
  "neutra (registrar_evento hoy d r)"
  "neutra (\<lambda>p. p\<lparr>estado_civil := e\<rparr>)"
  "neutra (\<lambda>p. p\<lparr>padres := fp p\<rparr>)"
  "neutra (\<lambda>p. p\<lparr>hijos := fh p\<rparr>)"
  by (simp_all add: neutra_def registrar_evento_def vivo_def)






























end
